theory Spec2Isabelle
  imports Main "HOL-Library.Word"
begin

section \<open>Data model of the AI gateway (convex/lib/ai.ts)\<close>

text \<open>
  The gateway turns a conversation into HTTP requests to one of several upstream
  APIs and turns the answers back into a uniform result. The source file holds
  two revisions of the module; the embedding follows the later one, with
  content parts, options, the tool-call loop and the responses adapter. It keeps
  the TypeScript interfaces as records and datatypes. An optional property
  (\<^verbatim>\<open>x?: T\<close>) and a nullable one (\<^verbatim>\<open>T | null\<close>) are \<open>option\<close> values; token
  counts are JSON numbers and are modelled as \<open>int\<close>.
\<close>

datatype role = User | Assistant

datatype ContentPart =
    TextPart string
  | ImagePart string string

datatype content = Text string | Parts "ContentPart list"

record ConversationMessage =
  role :: role
  content :: content

record AIResponse =
  ai_text :: string
  inputTokens :: "int option"
  outputTokens :: "int option"
  webSearchQueries :: "string list option"

datatype ThinkingMode = Disabled | Enabled | Auto

record GenerateResponseOptions =
  webSearch :: "bool option"
  thinking :: "ThinkingMode option"

record ClaudeUsage =
  input_tokens :: "int option"
  output_tokens :: "int option"

text \<open>A content block of the message API carries one field, its text.\<close>

record ClaudeAPIResponse =
  claude_content :: "string list"
  claude_usage :: "ClaudeUsage option"

record OpenAIToolCall =
  call_id :: string
  fn_name :: string
  fn_arguments :: string

record OpenAIMessage =
  msg_content :: "string option"
  tool_calls :: "OpenAIToolCall list option"

record OpenAIChoice =
  finish_reason :: string
  message :: OpenAIMessage

record OpenAIUsage =
  prompt_tokens :: "int option"
  completion_tokens :: "int option"

record OpenAIAPIResponse =
  choices :: "OpenAIChoice list"
  usage :: "OpenAIUsage option"

text \<open>
  An output item of the responses API is either a message with its list of
  output texts or a web-search call.
\<close>

datatype ResponsesAPIOutput = MessageOutput "string list" | WebSearchOutput

record ResponsesAPIResponse =
  resp_id :: string
  resp_output :: "ResponsesAPIOutput list"
  resp_usage :: "OpenAIUsage option"

subsection \<open>Requests, responses and errors\<close>

text \<open>
  A request body is the object handed to \<^verbatim>\<open>JSON.stringify\<close>; it is kept as a
  JSON value, objects as association lists in the order the source writes the
  keys. A property whose value is \<^verbatim>\<open>undefined\<close> is not serialised and is left out.
\<close>

datatype json =
    JNull
  | JBool bool
  | JNum int
  | JStr string
  | JArr "json list"
  | JObj "(string \<times> json) list"

definition field :: "string \<Rightarrow> json \<Rightarrow> json option" where
  "field k j = (case j of JObj kvs \<Rightarrow> map_of kvs k | _ \<Rightarrow> None)"

text \<open>
  A URL is a JavaScript string whose characters the code inspects (it trims the
  configured base and strips slashes), so URLs are kept as JavaScript has them,
  as sequences of UTF-16 code units. \<open>js\<close> is the string of a literal.
  Strings the code only copies stay character lists.
\<close>

type_synonym jsString = "16 word list"

definition js :: "string \<Rightarrow> jsString" where
  "js s = map of_char s"

record request =
  url :: jsString
  http_method :: string
  headers :: "(string \<times> string) list"
  body :: json

text \<open>
  What \<^verbatim>\<open>await fetch(...)\<close> gives: the promise rejects (a transport failure), or
  a response arrives with its status, its body as text and, where the body
  parses as JSON of the interface the source casts it to, the parsed value.
\<close>

datatype 'a fetched =
    FetchFailed string
  | Response nat string "'a option"

definition ok :: "nat \<Rightarrow> bool" where
  "ok status = (200 \<le> status \<and> status \<le> 299)"

text \<open>
  Every \<^verbatim>\<open>throw new Error(msg)\<close> of the source is \<open>Error msg\<close>; a rejection of
  \<^verbatim>\<open>fetch\<close> or of \<^verbatim>\<open>response.json()\<close> is not caught by the source and propagates
  as \<open>Rejected\<close>.
\<close>

datatype error = Error string | Rejected string

fun digits :: "nat \<Rightarrow> string" where
  "digits n = (if n < 10 then [''0123456789'' ! n]
               else digits (n div 10) @ [''0123456789'' ! (n mod 10)])"

declare digits.simps [simp del]

text \<open>Reading a decimal numeral back, to check \<open>digits\<close> against.\<close>

definition digitValue :: "char \<Rightarrow> nat" where
  "digitValue c = of_char c - 48"

definition decimalValue :: "string \<Rightarrow> nat" where
  "decimalValue s = foldl (\<lambda>n c. 10 * n + digitValue c) 0 s"

definition apiError :: "string \<Rightarrow> nat \<Rightarrow> string \<Rightarrow> error" where
  "apiError name status txt = Error (name @ '' API error: '' @ digits status @ '' - '' @ txt)"

definition ToolLoopExceededError :: error where
  "ToolLoopExceededError = Error ''moonshot web search exceeded maximum iterations''"

definition NoChoicesError :: error where
  "NoChoicesError = Error ''moonshot API returned no choices''"

type_synonym 'a outcome = "(error + 'a) \<times> request list"

section \<open>Content normalisation\<close>

definition roleName :: "role \<Rightarrow> string" where
  "roleName r = (case r of User \<Rightarrow> ''user'' | Assistant \<Rightarrow> ''assistant'')"

definition thinkingName :: "ThinkingMode \<Rightarrow> string" where
  "thinkingName t = (case t of Disabled \<Rightarrow> ''disabled'' | Enabled \<Rightarrow> ''enabled'' | Auto \<Rightarrow> ''auto'')"

definition toOpenAIContent :: "content \<Rightarrow> json" where
  "toOpenAIContent c =
     (case c of
        Text s \<Rightarrow> JStr s
      | Parts ps \<Rightarrow>
          JArr (map (\<lambda>part. case part of
                       TextPart t \<Rightarrow> JObj [(''type'', JStr ''text''), (''text'', JStr t)]
                     | ImagePart mt d \<Rightarrow>
                         JObj [(''type'', JStr ''image_url''),
                               (''image_url'',
                                JObj [(''url'', JStr (''data:'' @ mt @ '';base64,'' @ d))])])
                    ps))"

fun join :: "string \<Rightarrow> string list \<Rightarrow> string" where
  "join sep [] = []"
| "join sep [x] = x"
| "join sep (x # y # ys) = x @ sep @ join sep (y # ys)"

definition toTextContent :: "content \<Rightarrow> string" where
  "toTextContent c =
     (case c of
        Text s \<Rightarrow> s
      | Parts ps \<Rightarrow>
          join '' '' (map (\<lambda>part. case part of TextPart t \<Rightarrow> t | ImagePart _ _ \<Rightarrow> ''[image]'') ps))"

definition isImage :: "ContentPart \<Rightarrow> bool" where
  "isImage part = (case part of ImagePart _ _ \<Rightarrow> True | TextPart _ \<Rightarrow> False)"

definition hasImage :: "ConversationMessage list \<Rightarrow> bool" where
  "hasImage messages =
     list_ex (\<lambda>m. case content m of Parts ps \<Rightarrow> list_ex isImage ps | Text _ \<Rightarrow> False) messages"

section \<open>Endpoints and the ambient environment\<close>

text \<open>\<open>process.env\<close> is a map from variable names to values.\<close>

type_synonym env = "string \<Rightarrow> jsString option"

definition DEFAULT_OPENAI_BASE_URL :: jsString where
  "DEFAULT_OPENAI_BASE_URL = js ''https://api.openai.com/v1''"

text \<open>\<^verbatim>\<open>value.replace(/\/+$/, "")\<close>: the trailing slashes are removed.\<close>

definition normalizeBaseUrl :: "jsString \<Rightarrow> jsString" where
  "normalizeBaseUrl v = rev (dropWhile (\<lambda>c. c = of_char (CHR ''/'')) (rev v))"

text \<open>
  \<^verbatim>\<open>String.prototype.trim\<close> removes, at both ends, the code units of
  ECMAScript's white space and line terminators: U+0009 to U+000D, U+0020,
  U+00A0, U+1680, U+2000 to U+200A, U+2028, U+2029, U+202F, U+205F, U+3000 and
  U+FEFF.
\<close>

definition isSpace :: "16 word \<Rightarrow> bool" where
  "isSpace c =
     (c \<in> set [0x0009, 0x000A, 0x000B, 0x000C, 0x000D, 0x0020, 0x00A0, 0x1680,
                0x2000, 0x2001, 0x2002, 0x2003, 0x2004, 0x2005, 0x2006, 0x2007, 0x2008,
                0x2009, 0x200A, 0x2028, 0x2029, 0x202F, 0x205F, 0x3000, 0xFEFF])"

definition trim :: "jsString \<Rightarrow> jsString" where
  "trim v = rev (dropWhile isSpace (rev (dropWhile isSpace v)))"

definition getOpenAIBaseUrl :: "env \<Rightarrow> jsString" where
  "getOpenAIBaseUrl env =
     (case env ''OPENAI_BASE_URL'' of
        None \<Rightarrow> DEFAULT_OPENAI_BASE_URL
      | Some v \<Rightarrow>
          if v = [] then DEFAULT_OPENAI_BASE_URL
          else if trim v = [] then DEFAULT_OPENAI_BASE_URL
          else normalizeBaseUrl (trim v))"

text \<open>
  \<^verbatim>\<open>joinUrl\<close> normalises the base again, strips the leading slashes of the
  path (\<^verbatim>\<open>path.replace(/^\/+/, "")\<close>) and puts one slash between the two.
\<close>

definition joinUrl :: "jsString \<Rightarrow> jsString \<Rightarrow> jsString" where
  "joinUrl baseUrl path =
     normalizeBaseUrl baseUrl @ js ''/'' @ dropWhile (\<lambda>c. c = of_char (CHR ''/'')) path"

definition getOpenAIChatCompletionsUrl :: "env \<Rightarrow> jsString" where
  "getOpenAIChatCompletionsUrl env = joinUrl (getOpenAIBaseUrl env) (js ''chat/completions'')"

definition getOpenAIResponsesUrl :: "env \<Rightarrow> jsString" where
  "getOpenAIResponsesUrl env = joinUrl (getOpenAIBaseUrl env) (js ''responses'')"

definition OPENAI_COMPATIBLE_ENDPOINTS :: "string \<Rightarrow> jsString option" where
  "OPENAI_COMPATIBLE_ENDPOINTS =
     map_of [(''moonshot'', js ''https://api.moonshot.ai/v1/chat/completions''),
             (''grok'', js ''https://api.x.ai/v1/chat/completions'')]"

definition RESPONSES_API_ENDPOINTS :: "string \<Rightarrow> jsString option" where
  "RESPONSES_API_ENDPOINTS = map_of [(''grok'', js ''https://api.x.ai/v1/responses'')]"

definition bearerHeaders :: "string \<Rightarrow> (string \<times> string) list" where
  "bearerHeaders apiKey =
     [(''Content-Type'', ''application/json''), (''Authorization'', ''Bearer '' @ apiKey)]"

section \<open>The adapters\<close>

subsection \<open>Plain chat completions: callOpenAICompatible\<close>

definition convertedMessages :: "string \<Rightarrow> ConversationMessage list \<Rightarrow> json list" where
  "convertedMessages systemPrompt messages =
     JObj [(''role'', JStr ''system''), (''content'', JStr systemPrompt)]
     # map (\<lambda>m. JObj [(''role'', JStr (roleName (role m))),
                       (''content'', toOpenAIContent (content m))]) messages"

definition chatPayload ::
  "string \<Rightarrow> string \<Rightarrow> string \<Rightarrow> ConversationMessage list \<Rightarrow> ThinkingMode option \<Rightarrow> json" where
  "chatPayload provider model systemPrompt messages think =
     JObj ([(''model'', JStr model),
            (''max_tokens'', JNum 1024),
            (''messages'', JArr (convertedMessages systemPrompt messages))]
           @ (case think of
                Some t \<Rightarrow>
                  if provider = ''moonshot''
                  then [(''thinking'', JObj [(''type'', JStr (thinkingName t))])] else []
              | None \<Rightarrow> []))"

definition callOpenAICompatible ::
  "env \<Rightarrow> (nat \<Rightarrow> request \<Rightarrow> OpenAIAPIResponse fetched) \<Rightarrow> string \<Rightarrow> string \<Rightarrow> string \<Rightarrow> string
     \<Rightarrow> ConversationMessage list \<Rightarrow> ThinkingMode option \<Rightarrow> AIResponse outcome" where
  "callOpenAICompatible env fetch provider apiKey model systemPrompt messages think =
     (case (if provider = ''openai'' then Some (getOpenAIChatCompletionsUrl env)
            else OPENAI_COMPATIBLE_ENDPOINTS provider) of
        None \<Rightarrow> (Inl (Error (''No endpoint configured for provider: '' @ provider)), [])
      | Some u \<Rightarrow>
          if u = [] then (Inl (Error (''No endpoint configured for provider: '' @ provider)), [])
          else
            let req = \<lparr>url = u, http_method = ''POST'', headers = bearerHeaders apiKey,
                       body = chatPayload provider model systemPrompt messages think\<rparr>
            in case fetch 0 req of
                 FetchFailed e \<Rightarrow> (Inl (Rejected e), [req])
               | Response status txt parsed \<Rightarrow>
                   if \<not> ok status then (Inl (apiError provider status txt), [req])
                   else (case parsed of
                           None \<Rightarrow> (Inl (Rejected ''response.json()''), [req])
                         | Some d \<Rightarrow>
                             (Inr \<lparr>ai_text =
                                     (case choices d of
                                        [] \<Rightarrow> []
                                      | c # _ \<Rightarrow>
                                          (case msg_content (message c) of
                                             None \<Rightarrow> [] | Some s \<Rightarrow> s)),
                                   inputTokens =
                                     (case usage d of None \<Rightarrow> None | Some us \<Rightarrow> prompt_tokens us),
                                   outputTokens =
                                     (case usage d of None \<Rightarrow> None
                                      | Some us \<Rightarrow> completion_tokens us),
                                   webSearchQueries = None\<rparr>, [req])))"

subsection \<open>The tool-call loop: callMoonshotWithSearch\<close>

definition MAX_TOOL_ITERATIONS :: nat where
  "MAX_TOOL_ITERATIONS = 5"

definition moonshotTools :: json where
  "moonshotTools =
     JArr [JObj [(''type'', JStr ''builtin_function''),
                 (''function'', JObj [(''name'', JStr ''$web_search'')])]]"

text \<open>
  The variables the loop updates: the running message list, the two token
  totals and the captured queries. \<open>exchanges\<close> logs each request sent together
  with what \<^verbatim>\<open>fetch\<close> gave for it; the source keeps no such log, it is the
  trace of the calls made.
\<close>

record loop_state =
  apiMessages :: "json list"
  totalInputTokens :: int
  totalOutputTokens :: int
  searchQueries :: "string list"
  exchanges :: "(request \<times> OpenAIAPIResponse fetched) list"

definition moonshotRequest ::
  "jsString \<Rightarrow> string \<Rightarrow> string \<Rightarrow> ThinkingMode option \<Rightarrow> json list \<Rightarrow> request" where
  "moonshotRequest u apiKey model think msgs =
     \<lparr>url = u, http_method = ''POST'', headers = bearerHeaders apiKey,
      body = JObj ([(''model'', JStr model),
                    (''max_tokens'', JNum 1024),
                    (''messages'', JArr msgs),
                    (''tools'', moonshotTools)]
                   @ (case think of
                        Some t \<Rightarrow> [(''thinking'', JObj [(''type'', JStr (thinkingName t))])]
                      | None \<Rightarrow> []))\<rparr>"

text \<open>
  The turns echoed back to the upstream. A tool call and a message are the
  members the interfaces \<^verbatim>\<open>OpenAIToolCall\<close> and \<^verbatim>\<open>OpenAIAPIResponse\<close> declare:
  the content of a message is a string or null, and what an upstream adds
  beyond the declared members, or leaves out of them, is not modelled.
\<close>

definition toolCallJson :: "OpenAIToolCall \<Rightarrow> json" where
  "toolCallJson tc =
     JObj [(''id'', JStr (call_id tc)),
           (''type'', JStr ''function''),
           (''function'', JObj [(''name'', JStr (fn_name tc)),
                                (''arguments'', JStr (fn_arguments tc))])]"

definition assistantTurn :: "OpenAIChoice \<Rightarrow> OpenAIToolCall list \<Rightarrow> json" where
  "assistantTurn choice tcs =
     JObj [(''role'', JStr ''assistant''),
           (''content'', (case msg_content (message choice) of None \<Rightarrow> JNull | Some s \<Rightarrow> JStr s)),
           (''tool_calls'', JArr (map toolCallJson tcs))]"

definition toolTurn :: "OpenAIToolCall \<Rightarrow> json" where
  "toolTurn tc =
     JObj [(''role'', JStr ''tool''),
           (''tool_call_id'', JStr (call_id tc)),
           (''name'', JStr (fn_name tc)),
           (''content'', JStr (fn_arguments tc))]"

definition promptTokens :: "OpenAIAPIResponse \<Rightarrow> int" where
  "promptTokens d =
     (case usage d of None \<Rightarrow> 0
      | Some us \<Rightarrow> (case prompt_tokens us of None \<Rightarrow> 0 | Some n \<Rightarrow> n))"

definition completionTokens :: "OpenAIAPIResponse \<Rightarrow> int" where
  "completionTokens d =
     (case usage d of None \<Rightarrow> 0
      | Some us \<Rightarrow> (case completion_tokens us of None \<Rightarrow> 0 | Some n \<Rightarrow> n))"

definition loopResult :: "OpenAIChoice \<Rightarrow> loop_state \<Rightarrow> AIResponse" where
  "loopResult choice st =
     \<lparr>ai_text = (case msg_content (message choice) of None \<Rightarrow> [] | Some s \<Rightarrow> s),
      inputTokens = Some (totalInputTokens st),
      outputTokens = Some (totalOutputTokens st),
      webSearchQueries = (if length (searchQueries st) > 0 then Some (searchQueries st) else None)\<rparr>"

text \<open>
  One pass through the body of the \<^verbatim>\<open>for\<close> loop: it either returns or throws
  (\<open>Return\<close>) or reaches \<^verbatim>\<open>continue\<close> with the updated variables (\<open>Continue\<close>).
  An array is truthy in JavaScript even when empty, so the tool-call branch is
  taken whenever \<^verbatim>\<open>tool_calls\<close> is present.
\<close>

datatype round = Continue loop_state | Return "error + AIResponse" loop_state

definition toolRound ::
  "(nat \<Rightarrow> request \<Rightarrow> OpenAIAPIResponse fetched) \<Rightarrow> jsString \<Rightarrow> string \<Rightarrow> string
     \<Rightarrow> ThinkingMode option \<Rightarrow> nat \<Rightarrow> loop_state \<Rightarrow> round" where
  "toolRound fetch u apiKey model think i st =
     (let req = moonshotRequest u apiKey model think (apiMessages st);
          res = fetch i req;
          st1 = st\<lparr>exchanges := exchanges st @ [(req, res)]\<rparr>
      in case res of
           FetchFailed e \<Rightarrow> Return (Inl (Rejected e)) st1
         | Response status txt parsed \<Rightarrow>
             if \<not> ok status then Return (Inl (apiError ''moonshot'' status txt)) st1
             else (case parsed of
                     None \<Rightarrow> Return (Inl (Rejected ''response.json()'')) st1
                   | Some d \<Rightarrow>
                       let st2 = st1\<lparr>totalInputTokens := totalInputTokens st1 + promptTokens d,
                                      totalOutputTokens :=
                                        totalOutputTokens st1 + completionTokens d\<rparr>
                       in (case choices d of
                             [] \<Rightarrow> Return (Inl NoChoicesError) st2
                           | choice # _ \<Rightarrow>
                               if finish_reason choice = ''stop''
                               then Return (Inr (loopResult choice st2)) st2
                               else (case tool_calls (message choice) of
                                       Some tcs \<Rightarrow>
                                         if finish_reason choice = ''tool_calls''
                                         then Continue
                                                (st2\<lparr>searchQueries :=
                                                        searchQueries st2 @ map fn_arguments tcs,
                                                      apiMessages :=
                                                        apiMessages st2
                                                        @ [assistantTurn choice tcs]
                                                        @ map toolTurn tcs\<rparr>)
                                         else Return (Inr (loopResult choice st2)) st2
                                     | None \<Rightarrow> Return (Inr (loopResult choice st2)) st2))))"

function toolLoop ::
  "(nat \<Rightarrow> request \<Rightarrow> OpenAIAPIResponse fetched) \<Rightarrow> jsString \<Rightarrow> string \<Rightarrow> string
     \<Rightarrow> ThinkingMode option \<Rightarrow> nat \<Rightarrow> loop_state \<Rightarrow> (error + AIResponse) \<times> loop_state" where
  "toolLoop fetch u apiKey model think i st =
     (if i < MAX_TOOL_ITERATIONS
      then (case toolRound fetch u apiKey model think i st of
              Continue st' \<Rightarrow> toolLoop fetch u apiKey model think (Suc i) st'
            | Return r st' \<Rightarrow> (r, st'))
      else (Inl ToolLoopExceededError, st))"
  by pat_completeness auto
termination
  by (relation "measure (\<lambda>(fetch, u, apiKey, model, think, i, st). MAX_TOOL_ITERATIONS - i)") auto

declare toolLoop.simps [simp del]

definition initialState :: "string \<Rightarrow> ConversationMessage list \<Rightarrow> loop_state" where
  "initialState systemPrompt messages =
     \<lparr>apiMessages = convertedMessages systemPrompt messages,
      totalInputTokens = 0, totalOutputTokens = 0, searchQueries = [], exchanges = []\<rparr>"

definition callMoonshotWithSearch ::
  "(nat \<Rightarrow> request \<Rightarrow> OpenAIAPIResponse fetched) \<Rightarrow> string \<Rightarrow> string \<Rightarrow> string
     \<Rightarrow> ConversationMessage list \<Rightarrow> ThinkingMode option
     \<Rightarrow> (error + AIResponse) \<times> (request \<times> OpenAIAPIResponse fetched) list" where
  "callMoonshotWithSearch fetch apiKey model systemPrompt messages think =
     (case OPENAI_COMPATIBLE_ENDPOINTS ''moonshot'' of
        None \<Rightarrow> (Inl (Error ''No endpoint configured for provider: moonshot''), [])
      | Some u \<Rightarrow>
          if u = [] then (Inl (Error ''No endpoint configured for provider: moonshot''), [])
          else (case toolLoop fetch u apiKey model think 0 (initialState systemPrompt messages) of
                  (r, st) \<Rightarrow> (r, exchanges st)))"

subsection \<open>The message API: callClaude\<close>

definition contentForClaude :: "content \<Rightarrow> json" where
  "contentForClaude c =
     (case c of
        Text s \<Rightarrow> JStr s
      | Parts ps \<Rightarrow>
          JArr (map (\<lambda>part. case part of
                       TextPart t \<Rightarrow> JObj [(''type'', JStr ''text''), (''text'', JStr t)]
                     | ImagePart mt d \<Rightarrow>
                         JObj [(''type'', JStr ''image''),
                               (''source'',
                                JObj [(''type'', JStr ''base64''),
                                      (''media_type'', JStr mt),
                                      (''data'', JStr d)])])
                    ps))"

definition claudeRequest ::
  "string \<Rightarrow> string \<Rightarrow> string \<Rightarrow> ConversationMessage list \<Rightarrow> request" where
  "claudeRequest apiKey model systemPrompt messages =
     \<lparr>url = js ''https://api.anthropic.com/v1/messages'', http_method = ''POST'',
      headers = [(''Content-Type'', ''application/json''),
                 (''x-api-key'', apiKey),
                 (''anthropic-version'', ''2023-06-01'')],
      body = JObj [(''model'', JStr model),
                   (''max_tokens'', JNum 1024),
                   (''system'', JStr systemPrompt),
                   (''messages'',
                    JArr (map (\<lambda>m. JObj [(''role'', JStr (roleName (role m))),
                                            (''content'', contentForClaude (content m))])
                              messages))]\<rparr>"

definition callClaude ::
  "(nat \<Rightarrow> request \<Rightarrow> ClaudeAPIResponse fetched) \<Rightarrow> string \<Rightarrow> string \<Rightarrow> string
     \<Rightarrow> ConversationMessage list \<Rightarrow> AIResponse outcome" where
  "callClaude fetch apiKey model systemPrompt messages =
     (let req = claudeRequest apiKey model systemPrompt messages
      in case fetch 0 req of
           FetchFailed e \<Rightarrow> (Inl (Rejected e), [req])
         | Response status txt parsed \<Rightarrow>
             if \<not> ok status then (Inl (apiError ''Claude'' status txt), [req])
             else (case parsed of
                     None \<Rightarrow> (Inl (Rejected ''response.json()''), [req])
                   | Some d \<Rightarrow>
                       (Inr \<lparr>ai_text = (case claude_content d of [] \<Rightarrow> [] | t # _ \<Rightarrow> t),
                             inputTokens =
                               (case claude_usage d of None \<Rightarrow> None | Some us \<Rightarrow> input_tokens us),
                             outputTokens =
                               (case claude_usage d of None \<Rightarrow> None | Some us \<Rightarrow> output_tokens us),
                             webSearchQueries = None\<rparr>, [req])))"

subsection \<open>The responses API: callResponsesAPIWithSearch\<close>

definition responsesPayload :: "string \<Rightarrow> string \<Rightarrow> ConversationMessage list \<Rightarrow> json" where
  "responsesPayload model systemPrompt messages =
     JObj [(''model'', JStr model),
           (''input'',
            JArr (JObj [(''role'', JStr ''system''), (''content'', JStr systemPrompt)]
                  # map (\<lambda>m. JObj [(''role'', JStr (roleName (role m))),
                                    (''content'', JStr (toTextContent (content m)))])
                        messages)),
           (''tools'', JArr [JObj [(''type'', JStr ''web_search'')]]),
           (''store'', JBool False)]"

definition isMessage :: "ResponsesAPIOutput \<Rightarrow> bool" where
  "isMessage item = (case item of MessageOutput _ \<Rightarrow> True | WebSearchOutput \<Rightarrow> False)"

definition isWebSearchCall :: "ResponsesAPIOutput \<Rightarrow> bool" where
  "isWebSearchCall item = (case item of WebSearchOutput \<Rightarrow> True | MessageOutput _ \<Rightarrow> False)"

definition responsesText :: "ResponsesAPIResponse \<Rightarrow> string" where
  "responsesText d =
     (case find isMessage (resp_output d) of
        Some (MessageOutput (t # _)) \<Rightarrow> t
      | _ \<Rightarrow> [])"

definition callResponsesAPIWithSearch ::
  "env \<Rightarrow> (nat \<Rightarrow> request \<Rightarrow> ResponsesAPIResponse fetched) \<Rightarrow> string \<Rightarrow> string \<Rightarrow> string
     \<Rightarrow> string \<Rightarrow> ConversationMessage list \<Rightarrow> AIResponse outcome" where
  "callResponsesAPIWithSearch env fetch provider apiKey model systemPrompt messages =
     (case (if provider = ''openai'' then Some (getOpenAIResponsesUrl env)
            else RESPONSES_API_ENDPOINTS provider) of
        None \<Rightarrow>
          (Inl (Error (''No Responses API endpoint configured for provider: '' @ provider)), [])
      | Some u \<Rightarrow>
          if u = []
          then (Inl (Error (''No Responses API endpoint configured for provider: '' @ provider)), [])
          else
            let req = \<lparr>url = u, http_method = ''POST'', headers = bearerHeaders apiKey,
                       body = responsesPayload model systemPrompt messages\<rparr>
            in case fetch 0 req of
                 FetchFailed e \<Rightarrow> (Inl (Rejected e), [req])
               | Response status txt parsed \<Rightarrow>
                   if \<not> ok status then (Inl (apiError provider status txt), [req])
                   else (case parsed of
                           None \<Rightarrow> (Inl (Rejected ''response.json()''), [req])
                         | Some d \<Rightarrow>
                             let searchCalls = filter isWebSearchCall (resp_output d)
                             in (Inr \<lparr>ai_text = responsesText d,
                                      inputTokens =
                                        (case resp_usage d of None \<Rightarrow> None
                                         | Some us \<Rightarrow> prompt_tokens us),
                                      outputTokens =
                                        (case resp_usage d of None \<Rightarrow> None
                                         | Some us \<Rightarrow> completion_tokens us),
                                      webSearchQueries =
                                        (if length searchCalls > 0
                                         then Some [''web_search ('' @ digits (length searchCalls)
                                                    @ '' call(s))'']
                                         else None)\<rparr>, [req])))"

section \<open>The facade: generateResponse\<close>

text \<open>
  The three upstream services, each answering with the interface the adapter
  casts the parsed body to. The number is the position of the call within one
  \<^verbatim>\<open>generateResponse\<close>.
\<close>

record upstream =
  messagesApi :: "nat \<Rightarrow> request \<Rightarrow> ClaudeAPIResponse fetched"
  chatApi :: "nat \<Rightarrow> request \<Rightarrow> OpenAIAPIResponse fetched"
  responsesApi :: "nat \<Rightarrow> request \<Rightarrow> ResponsesAPIResponse fetched"

definition allowWebSearch ::
  "GenerateResponseOptions option \<Rightarrow> ConversationMessage list \<Rightarrow> bool" where
  "allowWebSearch opts messages =
     (case opts of
        None \<Rightarrow> False
      | Some os \<Rightarrow> webSearch os = Some True \<and> \<not> hasImage messages)"

definition optThinking :: "GenerateResponseOptions option \<Rightarrow> ThinkingMode option" where
  "optThinking opts = (case opts of None \<Rightarrow> None | Some os \<Rightarrow> thinking os)"

definition generateResponse ::
  "env \<Rightarrow> upstream \<Rightarrow> string \<Rightarrow> string \<Rightarrow> string \<Rightarrow> string \<Rightarrow> ConversationMessage list
     \<Rightarrow> GenerateResponseOptions option \<Rightarrow> AIResponse outcome" where
  "generateResponse env up provider apiKey model systemPrompt messages opts =
     (if provider = ''claude''
      then callClaude (messagesApi up) apiKey model systemPrompt messages
      else if provider = ''moonshot''
      then (if allowWebSearch opts messages
            then (case callMoonshotWithSearch (chatApi up) apiKey model systemPrompt messages
                         (optThinking opts) of
                    (r, ex) \<Rightarrow> (r, map fst ex))
            else callOpenAICompatible env (chatApi up) provider apiKey model systemPrompt
                   messages (optThinking opts))
      else if provider = ''grok''
      then (if allowWebSearch opts messages
            then callResponsesAPIWithSearch env (responsesApi up) provider apiKey model
                   systemPrompt messages
            else callOpenAICompatible env (chatApi up) provider apiKey model systemPrompt
                   messages (optThinking opts))
      else if provider = ''openai''
      then (if allowWebSearch opts messages
            then callResponsesAPIWithSearch env (responsesApi up) provider apiKey model
                   systemPrompt messages
            else callOpenAICompatible env (chatApi up) provider apiKey model systemPrompt
                   messages (optThinking opts))
      else (Inl (Error (''Unknown AI provider: '' @ provider)), []))"

section \<open>The image resolver: fetchImageForModel\<close>

text \<open>
  The resolver asks the chat platform where a file lives (\<^verbatim>\<open>getFile\<close>), downloads
  it (\<^verbatim>\<open>downloadTelegramFile\<close>) and encodes the bytes. Sizes are JSON numbers,
  modelled as \<open>int\<close>; the downloaded bytes are a \<^verbatim>\<open>Uint8Array\<close>.
\<close>

definition MAX_IMAGE_BYTES :: int where
  "MAX_IMAGE_BYTES = 5 * 1024 * 1024"

record image =
  fileId :: string
  mimeType :: "string option"
  fileSize :: "int option"

record fileInfo =
  file_path :: "string option"
  file_size :: "int option"

record getFileData =
  tg_ok :: "bool option"
  tg_result :: "fileInfo option"

record download =
  bytes :: "8 word list"
  contentType :: "string option"

record encodedImage =
  mediaType :: string
  data :: string

text \<open>
  The platform: the answer to a \<^verbatim>\<open>getFile\<close> request, and the answer to a plain
  \<^verbatim>\<open>fetch(url)\<close> of a file, whose body read as an array buffer comes with the
  response's content-type header.
\<close>

record telegram =
  getFileApi :: "request \<Rightarrow> getFileData fetched"
  fileApi :: "jsString \<Rightarrow> download fetched"

datatype netCall = Posted request | Got jsString

definition BASE_URL :: string where
  "BASE_URL = ''https://api.telegram.org/bot''"

definition FILE_BASE_URL :: string where
  "FILE_BASE_URL = ''https://api.telegram.org/file/bot''"

definition getFile :: "telegram \<Rightarrow> string \<Rightarrow> string \<Rightarrow> (error + fileInfo) \<times> netCall list" where
  "getFile tg token fid =
     (let req = \<lparr>url = js (BASE_URL @ token @ ''/getFile''), http_method = ''POST'',
                 headers = [(''Content-Type'', ''application/json'')],
                 body = JObj [(''file_id'', JStr fid)]\<rparr>
      in case getFileApi tg req of
           FetchFailed e \<Rightarrow> (Inl (Rejected e), [Posted req])
         | Response status txt parsed \<Rightarrow>
             if \<not> ok status then (Inl (apiError ''Telegram'' status txt), [Posted req])
             else (case parsed of
                     None \<Rightarrow> (Inl (Rejected ''response.json()''), [Posted req])
                   | Some d \<Rightarrow>
                       (Inr (case tg_result d of
                               None \<Rightarrow> \<lparr>file_path = None, file_size = None\<rparr>
                             | Some info \<Rightarrow> info), [Posted req])))"

definition downloadTelegramFile ::
  "telegram \<Rightarrow> string \<Rightarrow> string \<Rightarrow> (error + download) \<times> netCall list" where
  "downloadTelegramFile tg token filePath =
     (let u = js (FILE_BASE_URL @ token @ ''/'' @ filePath)
      in case fileApi tg u of
           FetchFailed e \<Rightarrow> (Inl (Rejected e), [Got u])
         | Response status txt parsed \<Rightarrow>
             if \<not> ok status
             then (Inl (Error (''Telegram file download error: '' @ digits status @ '' - '' @ txt)),
                   [Got u])
             else (case parsed of
                     None \<Rightarrow> (Inl (Rejected ''response.arrayBuffer()''), [Got u])
                   | Some dl \<Rightarrow> (Inr dl, [Got u])))"

text \<open>
  \<^verbatim>\<open>toBase64\<close> hands the bytes to the runtime's encoder (\<^verbatim>\<open>btoa\<close>, else
  \<^verbatim>\<open>Buffer\<close>) and throws when the runtime has neither. The encoder is a
  parameter: \<open>None\<close> is a runtime without one.
\<close>

definition toBase64 :: "(8 word list \<Rightarrow> string) option \<Rightarrow> 8 word list \<Rightarrow> error + string" where
  "toBase64 encoder bs =
     (case encoder of
        Some enc \<Rightarrow> Inr (enc bs)
      | None \<Rightarrow> Inl (Error ''Base64 encoding not supported in this environment''))"

definition ImageTooLargeError :: error where
  "ImageTooLargeError = Error ''IMAGE_TOO_LARGE''"

definition ImageMetadataMissingError :: error where
  "ImageMetadataMissingError = Error ''IMAGE_FILE_PATH_MISSING''"

text \<open>
  A size test \<^verbatim>\<open>x && x > MAX_IMAGE_BYTES\<close> holds when the number is present,
  is not zero and exceeds the ceiling.
\<close>

definition tooLarge :: "int option \<Rightarrow> bool" where
  "tooLarge sz = (case sz of None \<Rightarrow> False | Some n \<Rightarrow> n \<noteq> 0 \<and> n > MAX_IMAGE_BYTES)"

definition fetchImageForModel ::
  "telegram \<Rightarrow> (8 word list \<Rightarrow> string) option \<Rightarrow> string \<Rightarrow> image
     \<Rightarrow> (error + encodedImage) \<times> netCall list" where
  "fetchImageForModel tg encoder token img =
     (if tooLarge (fileSize img) then (Inl ImageTooLargeError, [])
      else
        (case getFile tg token (fileId img) of
           (Inl e, calls1) \<Rightarrow> (Inl e, calls1)
         | (Inr info, calls1) \<Rightarrow>
             (case file_path info of
                None \<Rightarrow> (Inl ImageMetadataMissingError, calls1)
              | Some path \<Rightarrow>
                  if path = [] then (Inl ImageMetadataMissingError, calls1)
                  else if tooLarge (file_size info) then (Inl ImageTooLargeError, calls1)
                  else
                    (case downloadTelegramFile tg token path of
                       (Inl e, calls2) \<Rightarrow> (Inl e, calls1 @ calls2)
                     | (Inr dl, calls2) \<Rightarrow>
                         if int (length (bytes dl)) > MAX_IMAGE_BYTES
                         then (Inl ImageTooLargeError, calls1 @ calls2)
                         else
                           (case toBase64 encoder (bytes dl) of
                              Inl e \<Rightarrow> (Inl e, calls1 @ calls2)
                            | Inr encoded \<Rightarrow>
                                (Inr \<lparr>mediaType =
                                        (case mimeType img of
                                           Some mt \<Rightarrow> mt
                                         | None \<Rightarrow>
                                             (case contentType dl of
                                                Some ct \<Rightarrow> ct
                                              | None \<Rightarrow> ''image/jpeg'')),
                                      data = encoded\<rparr>, calls1 @ calls2))))))"

text \<open>Example platforms.\<close>

definition reportsSizeOnly :: telegram where
  "reportsSizeOnly =
     \<lparr>getFileApi = (\<lambda>req. Response 200 []
                            (Some \<lparr>tg_ok = Some True,
                                   tg_result = Some \<lparr>file_path = None,
                                                     file_size = Some 6000000\<rparr>\<rparr>)),
      fileApi = (\<lambda>u. FetchFailed ''unreachable'')\<rparr>"

definition reportsLarge :: telegram where
  "reportsLarge =
     \<lparr>getFileApi = (\<lambda>req. Response 200 []
                            (Some \<lparr>tg_ok = Some True,
                                   tg_result = Some \<lparr>file_path = Some ''photos/file.jpg'',
                                                     file_size = Some 6000000\<rparr>\<rparr>)),
      fileApi = (\<lambda>u. FetchFailed ''unreachable'')\<rparr>"

definition servesLarge :: telegram where
  "servesLarge =
     \<lparr>getFileApi = (\<lambda>req. Response 200 []
                            (Some \<lparr>tg_ok = Some True,
                                   tg_result = Some \<lparr>file_path = Some ''photos/file.jpg'',
                                                     file_size = Some 3\<rparr>\<rparr>)),
      fileApi = (\<lambda>u. Response 200 []
                        (Some \<lparr>bytes = replicate 5242881 0, contentType = Some ''image/png''\<rparr>))\<rparr>"

text \<open>A size that is present and above the ceiling of 5 MiB.\<close>

definition exceedsCeiling :: "int option \<Rightarrow> bool" where
  "exceedsCeiling sz = (case sz of None \<Rightarrow> False | Some n \<Rightarrow> n > 5 * 1024 * 1024)"

definition textOnlyPhoto :: image where
  "textOnlyPhoto = \<lparr>fileId = ''file_1'', mimeType = None, fileSize = None\<rparr>"

definition largePhoto :: image where
  "largePhoto = \<lparr>fileId = ''file_1'', mimeType = None, fileSize = Some 6000000\<rparr>"

section \<open>What a run of the tool-call loop has seen\<close>

text \<open>
  Functions of the log of exchanges, used to state what the loop returns:
  the body the source gets to read from a response (none when the call failed,
  the status was not a success or the body did not parse), the usage counts it
  reports, and the tool calls it asks for with the finish signal
  \<^verbatim>\<open>tool_calls\<close>.
\<close>

definition received :: "'a fetched \<Rightarrow> 'a option" where
  "received res = (case res of FetchFailed _ \<Rightarrow> None
                   | Response status _ parsed \<Rightarrow> if ok status then parsed else None)"

definition reportedPrompt :: "OpenAIAPIResponse fetched \<Rightarrow> int option" where
  "reportedPrompt res =
     (case received res of None \<Rightarrow> None
      | Some d \<Rightarrow> (case usage d of None \<Rightarrow> None | Some us \<Rightarrow> prompt_tokens us))"

definition reportedCompletion :: "OpenAIAPIResponse fetched \<Rightarrow> int option" where
  "reportedCompletion res =
     (case received res of None \<Rightarrow> None
      | Some d \<Rightarrow> (case usage d of None \<Rightarrow> None | Some us \<Rightarrow> completion_tokens us))"

definition requestedCalls :: "OpenAIAPIResponse fetched \<Rightarrow> OpenAIToolCall list option" where
  "requestedCalls res =
     (case received res of None \<Rightarrow> None
      | Some d \<Rightarrow>
          (case choices d of [] \<Rightarrow> None
           | c # _ \<Rightarrow> if finish_reason c = ''tool_calls'' then tool_calls (message c) else None))"

definition loopInv :: "loop_state \<Rightarrow> bool" where
  "loopInv st =
     (totalInputTokens st = sum_list (List.map_filter (\<lambda>e. reportedPrompt (snd e)) (exchanges st))
      \<and> totalOutputTokens st = sum_list (List.map_filter (\<lambda>e. reportedCompletion (snd e)) (exchanges st))
      \<and> searchQueries st
          = map fn_arguments (concat (List.map_filter (\<lambda>e. requestedCalls (snd e)) (exchanges st))))"

definition lastContent :: "(request \<times> OpenAIAPIResponse fetched) list \<Rightarrow> string option" where
  "lastContent ex =
     (if ex = [] then None
      else (case received (snd (last ex)) of
              None \<Rightarrow> None
            | Some d \<Rightarrow> (case choices d of [] \<Rightarrow> None | c # _ \<Rightarrow> msg_content (message c))))"

text \<open>The six ways one pass through the loop body can go.\<close>

datatype step =
    SFailed string
  | SStatus nat string
  | SNoJson
  | SNoChoices OpenAIAPIResponse
  | SFinal OpenAIAPIResponse OpenAIChoice
  | SCalls OpenAIAPIResponse OpenAIChoice "OpenAIToolCall list"

definition classify :: "OpenAIAPIResponse fetched \<Rightarrow> step" where
  "classify res =
     (case res of
        FetchFailed e \<Rightarrow> SFailed e
      | Response status txt parsed \<Rightarrow>
          if \<not> ok status then SStatus status txt
          else (case parsed of
                  None \<Rightarrow> SNoJson
                | Some d \<Rightarrow>
                    (case choices d of
                       [] \<Rightarrow> SNoChoices d
                     | c # _ \<Rightarrow>
                         if finish_reason c = ''stop'' then SFinal d c
                         else (case tool_calls (message c) of
                                 Some tcs \<Rightarrow>
                                   if finish_reason c = ''tool_calls'' then SCalls d c tcs
                                   else SFinal d c
                               | None \<Rightarrow> SFinal d c))))"

definition counted :: "OpenAIAPIResponse \<Rightarrow> loop_state \<Rightarrow> loop_state" where
  "counted d st = st\<lparr>totalInputTokens := totalInputTokens st + promptTokens d,
                     totalOutputTokens := totalOutputTokens st + completionTokens d\<rparr>"

definition logged :: "request \<Rightarrow> OpenAIAPIResponse fetched \<Rightarrow> loop_state \<Rightarrow> loop_state" where
  "logged req res st = st\<lparr>exchanges := exchanges st @ [(req, res)]\<rparr>"

definition resultOf :: "error + AIResponse \<Rightarrow> loop_state \<Rightarrow> bool" where
  "resultOf r st =
     (\<forall>a. r = Inr a \<longrightarrow>
        inputTokens a = Some (totalInputTokens st)
      \<and> outputTokens a = Some (totalOutputTokens st)
      \<and> webSearchQueries a = (if searchQueries st = [] then None else Some (searchQueries st))
      \<and> ai_text a = (case lastContent (exchanges st) of None \<Rightarrow> [] | Some s \<Rightarrow> s))"


section \<open>Example upstream behaviours\<close>

text \<open>Concrete upstream services on which the theorems below are exercised.\<close>

definition stopChoice :: "string option \<Rightarrow> OpenAIChoice" where
  "stopChoice c = \<lparr>finish_reason = ''stop'', message = \<lparr>msg_content = c, tool_calls = None\<rparr>\<rparr>"

definition searchCall :: OpenAIToolCall where
  "searchCall = \<lparr>call_id = ''call_1'', fn_name = ''$web_search'', fn_arguments = ''rust news''\<rparr>"

definition searchChoice :: OpenAIChoice where
  "searchChoice =
     \<lparr>finish_reason = ''tool_calls'',
      message = \<lparr>msg_content = None, tool_calls = Some [searchCall]\<rparr>\<rparr>"

definition answersAtOnce :: "nat \<Rightarrow> request \<Rightarrow> OpenAIAPIResponse fetched" where
  "answersAtOnce i req =
     Response 200 [] (Some \<lparr>choices = [stopChoice (Some ''Hi there.'')], usage = None\<rparr>)"

definition searchesOnce :: "nat \<Rightarrow> request \<Rightarrow> OpenAIAPIResponse fetched" where
  "searchesOnce i req =
     (if i = 0
      then Response 200 []
             (Some \<lparr>choices = [searchChoice],
                    usage = Some \<lparr>prompt_tokens = Some 5, completion_tokens = Some 3\<rparr>\<rparr>)
      else Response 200 []
             (Some \<lparr>choices = [stopChoice (Some ''Found it.'')],
                    usage = Some \<lparr>prompt_tokens = Some 7, completion_tokens = Some 2\<rparr>\<rparr>))"

definition searchesForever :: "nat \<Rightarrow> request \<Rightarrow> OpenAIAPIResponse fetched" where
  "searchesForever i req = Response 200 [] (Some \<lparr>choices = [searchChoice], usage = None\<rparr>)"

definition emptyChoices :: "nat \<Rightarrow> request \<Rightarrow> OpenAIAPIResponse fetched" where
  "emptyChoices i req = Response 200 [] (Some \<lparr>choices = [], usage = None\<rparr>)"

definition claudeSilent :: "nat \<Rightarrow> request \<Rightarrow> ClaudeAPIResponse fetched" where
  "claudeSilent i req = Response 200 [] (Some \<lparr>claude_content = [], claude_usage = None\<rparr>)"

definition responsesSearched :: "nat \<Rightarrow> request \<Rightarrow> ResponsesAPIResponse fetched" where
  "responsesSearched i req =
     Response 200 []
       (Some \<lparr>resp_id = ''resp_test'',
              resp_output = [WebSearchOutput, WebSearchOutput, MessageOutput [''Found it.'']],
              resp_usage = None\<rparr>)"

definition responsesSilent :: "nat \<Rightarrow> request \<Rightarrow> ResponsesAPIResponse fetched" where
  "responsesSilent i req =
     Response 200 []
       (Some \<lparr>resp_id = ''resp_test'', resp_output = [MessageOutput []], resp_usage = None\<rparr>)"

definition exampleUpstream :: upstream where
  "exampleUpstream =
     \<lparr>messagesApi = claudeSilent, chatApi = answersAtOnce, responsesApi = responsesSearched\<rparr>"

text \<open>
  The request of the plain chat-completions adapter and of the responses
  adapter, as a function of the endpoint chosen.
\<close>

definition chatRequest ::
  "jsString \<Rightarrow> string \<Rightarrow> string \<Rightarrow> string \<Rightarrow> string \<Rightarrow> ConversationMessage list
     \<Rightarrow> ThinkingMode option \<Rightarrow> request" where
  "chatRequest u provider apiKey model systemPrompt messages think =
     \<lparr>url = u, http_method = ''POST'', headers = bearerHeaders apiKey,
      body = chatPayload provider model systemPrompt messages think\<rparr>"

definition responsesRequest ::
  "jsString \<Rightarrow> string \<Rightarrow> string \<Rightarrow> string \<Rightarrow> ConversationMessage list \<Rightarrow> request" where
  "responsesRequest u apiKey model systemPrompt messages =
     \<lparr>url = u, http_method = ''POST'', headers = bearerHeaders apiKey,
      body = responsesPayload model systemPrompt messages\<rparr>"

text \<open>
  Environments: a base URL with a trailing slash, a value made of white space
  only, and a base URL with white space and slashes around it.
\<close>

definition localEnv :: env where
  "localEnv = [''OPENAI_BASE_URL'' \<mapsto> js ''http://localhost:8080/v1/'']"

definition blankEnv :: env where
  "blankEnv = [''OPENAI_BASE_URL'' \<mapsto> [0x00A0, 0x0020, 0xFEFF, 0x2028, 0x0009]]"

definition paddedEnv :: env where
  "paddedEnv = [''OPENAI_BASE_URL'' \<mapsto> [0x00A0] @ js '' http://localhost:8080/v1// '' @ [0x2029]]"

definition photoTurn :: ConversationMessage where
  "photoTurn = \<lparr>role = User,
                 content = Parts [TextPart ''what is this?'', ImagePart ''image/png'' ''AQID'']\<rparr>"

definition searchOn :: GenerateResponseOptions where
  "searchOn = \<lparr>webSearch = Some True, thinking = None\<rparr>"


section \<open>The same code over an explicit store\<close>

text \<open>
  The facade receives a reference to the caller's array of messages. To state
  what a call leaves untouched, the code is modelled once more with the arrays
  and objects it updates in place held in a store: a cell is the caller's
  conversation (the array together with its elements), an array of request
  messages, an array of strings, or an object. An address is a position in the
  store and an allocation appends a cell. The only updates in the source are
  \<^verbatim>\<open>apiMessages.push\<close>, \<^verbatim>\<open>searchQueries.push\<close> and the assignment
  \<^verbatim>\<open>payload.thinking = ...\<close>; the arrays and objects that are built and never
  updated afterwards stay values. No statement of the source assigns to a
  message, to its content or to a part.
\<close>

datatype cell =
    Conversation "ConversationMessage list"
  | Messages "json list"
  | Strings "string list"
  | Object "(string \<times> json) list"

type_synonym heap = "cell list"

definition alloc :: "heap \<Rightarrow> cell \<Rightarrow> nat \<times> heap" where
  "alloc h c = (length h, h @ [c])"

definition conversationAt :: "heap \<Rightarrow> nat \<Rightarrow> ConversationMessage list" where
  "conversationAt h a =
     (if a < length h then (case h ! a of Conversation ms \<Rightarrow> ms | _ \<Rightarrow> []) else [])"

definition messagesAt :: "heap \<Rightarrow> nat \<Rightarrow> json list" where
  "messagesAt h a = (if a < length h then (case h ! a of Messages ms \<Rightarrow> ms | _ \<Rightarrow> []) else [])"

definition stringsAt :: "heap \<Rightarrow> nat \<Rightarrow> string list" where
  "stringsAt h a = (if a < length h then (case h ! a of Strings ss \<Rightarrow> ss | _ \<Rightarrow> []) else [])"

definition objectAt :: "heap \<Rightarrow> nat \<Rightarrow> (string \<times> json) list" where
  "objectAt h a = (if a < length h then (case h ! a of Object kvs \<Rightarrow> kvs | _ \<Rightarrow> []) else [])"

definition pushMessages :: "heap \<Rightarrow> nat \<Rightarrow> json list \<Rightarrow> heap" where
  "pushMessages h a xs = h[a := Messages (messagesAt h a @ xs)]"

definition pushStrings :: "heap \<Rightarrow> nat \<Rightarrow> string list \<Rightarrow> heap" where
  "pushStrings h a xs = h[a := Strings (stringsAt h a @ xs)]"

definition setProperty :: "heap \<Rightarrow> nat \<Rightarrow> string \<Rightarrow> json \<Rightarrow> heap" where
  "setProperty h a k v = h[a := Object (objectAt h a @ [(k, v)])]"

definition callOpenAICompatible_h ::
  "env \<Rightarrow> (nat \<Rightarrow> request \<Rightarrow> OpenAIAPIResponse fetched) \<Rightarrow> string \<Rightarrow> string \<Rightarrow> string \<Rightarrow> string
     \<Rightarrow> nat \<Rightarrow> ThinkingMode option \<Rightarrow> heap \<Rightarrow> AIResponse outcome \<times> heap" where
  "callOpenAICompatible_h env fetch provider apiKey model systemPrompt messagesRef think h =
     (case (if provider = ''openai'' then Some (getOpenAIChatCompletionsUrl env)
            else OPENAI_COMPATIBLE_ENDPOINTS provider) of
        None \<Rightarrow> ((Inl (Error (''No endpoint configured for provider: '' @ provider)), []), h)
      | Some u \<Rightarrow>
          if u = []
          then ((Inl (Error (''No endpoint configured for provider: '' @ provider)), []), h)
          else
            (case alloc h (Object [(''model'', JStr model),
                                   (''max_tokens'', JNum 1024),
                                   (''messages'',
                                    JArr (convertedMessages systemPrompt
                                            (conversationAt h messagesRef)))]) of
               (payload, h1) \<Rightarrow>
                 let h2 = (case think of
                             Some t \<Rightarrow>
                               if provider = ''moonshot''
                               then setProperty h1 payload ''thinking''
                                      (JObj [(''type'', JStr (thinkingName t))])
                               else h1
                           | None \<Rightarrow> h1);
                     req = \<lparr>url = u, http_method = ''POST'', headers = bearerHeaders apiKey,
                            body = JObj (objectAt h2 payload)\<rparr>
                 in (case fetch 0 req of
                       FetchFailed e \<Rightarrow> ((Inl (Rejected e), [req]), h2)
                     | Response status txt parsed \<Rightarrow>
                         if \<not> ok status then ((Inl (apiError provider status txt), [req]), h2)
                         else (case parsed of
                                 None \<Rightarrow> ((Inl (Rejected ''response.json()''), [req]), h2)
                               | Some d \<Rightarrow>
                                   ((Inr \<lparr>ai_text =
                                            (case choices d of
                                               [] \<Rightarrow> []
                                             | c # _ \<Rightarrow>
                                                 (case msg_content (message c) of
                                                    None \<Rightarrow> [] | Some s \<Rightarrow> s)),
                                          inputTokens =
                                            (case usage d of None \<Rightarrow> None
                                             | Some us \<Rightarrow> prompt_tokens us),
                                          outputTokens =
                                            (case usage d of None \<Rightarrow> None
                                             | Some us \<Rightarrow> completion_tokens us),
                                          webSearchQueries = None\<rparr>, [req]), h2)))))"

record loop_refs =
  store :: heap
  apiMessagesRef :: nat
  searchQueriesRef :: nat
  inputTotal :: int
  outputTotal :: int
  exchanged :: "(request \<times> OpenAIAPIResponse fetched) list"

definition loopResult_h :: "OpenAIChoice \<Rightarrow> loop_refs \<Rightarrow> AIResponse" where
  "loopResult_h choice ls =
     \<lparr>ai_text = (case msg_content (message choice) of None \<Rightarrow> [] | Some s \<Rightarrow> s),
      inputTokens = Some (inputTotal ls),
      outputTokens = Some (outputTotal ls),
      webSearchQueries =
        (if length (stringsAt (store ls) (searchQueriesRef ls)) > 0
         then Some (stringsAt (store ls) (searchQueriesRef ls)) else None)\<rparr>"

datatype round_h = Continue_h loop_refs | Return_h "error + AIResponse" loop_refs

definition toolRound_h ::
  "(nat \<Rightarrow> request \<Rightarrow> OpenAIAPIResponse fetched) \<Rightarrow> jsString \<Rightarrow> string \<Rightarrow> string
     \<Rightarrow> ThinkingMode option \<Rightarrow> nat \<Rightarrow> loop_refs \<Rightarrow> round_h" where
  "toolRound_h fetch u apiKey model think i ls =
     (let req = moonshotRequest u apiKey model think (messagesAt (store ls) (apiMessagesRef ls));
          res = fetch i req;
          ls1 = ls\<lparr>exchanged := exchanged ls @ [(req, res)]\<rparr>
      in case res of
           FetchFailed e \<Rightarrow> Return_h (Inl (Rejected e)) ls1
         | Response status txt parsed \<Rightarrow>
             if \<not> ok status then Return_h (Inl (apiError ''moonshot'' status txt)) ls1
             else (case parsed of
                     None \<Rightarrow> Return_h (Inl (Rejected ''response.json()'')) ls1
                   | Some d \<Rightarrow>
                       let ls2 = ls1\<lparr>inputTotal := inputTotal ls1 + promptTokens d,
                                      outputTotal := outputTotal ls1 + completionTokens d\<rparr>
                       in (case choices d of
                             [] \<Rightarrow> Return_h (Inl NoChoicesError) ls2
                           | choice # _ \<Rightarrow>
                               if finish_reason choice = ''stop''
                               then Return_h (Inr (loopResult_h choice ls2)) ls2
                               else (case tool_calls (message choice) of
                                       Some tcs \<Rightarrow>
                                         if finish_reason choice = ''tool_calls''
                                         then Continue_h
                                                (ls2\<lparr>store :=
                                                        pushMessages
                                                          (pushMessages
                                                             (pushStrings (store ls2)
                                                                (searchQueriesRef ls2)
                                                                (map fn_arguments tcs))
                                                             (apiMessagesRef ls2)
                                                             [assistantTurn choice tcs])
                                                          (apiMessagesRef ls2)
                                                          (map toolTurn tcs)\<rparr>)
                                         else Return_h (Inr (loopResult_h choice ls2)) ls2
                                     | None \<Rightarrow> Return_h (Inr (loopResult_h choice ls2)) ls2))))"

function toolLoop_h ::
  "(nat \<Rightarrow> request \<Rightarrow> OpenAIAPIResponse fetched) \<Rightarrow> jsString \<Rightarrow> string \<Rightarrow> string
     \<Rightarrow> ThinkingMode option \<Rightarrow> nat \<Rightarrow> loop_refs \<Rightarrow> (error + AIResponse) \<times> loop_refs" where
  "toolLoop_h fetch u apiKey model think i ls =
     (if i < MAX_TOOL_ITERATIONS
      then (case toolRound_h fetch u apiKey model think i ls of
              Continue_h ls' \<Rightarrow> toolLoop_h fetch u apiKey model think (Suc i) ls'
            | Return_h r ls' \<Rightarrow> (r, ls'))
      else (Inl ToolLoopExceededError, ls))"
  by pat_completeness auto
termination
  by (relation "measure (\<lambda>(fetch, u, apiKey, model, think, i, ls). MAX_TOOL_ITERATIONS - i)") auto

declare toolLoop_h.simps [simp del]

definition callMoonshotWithSearch_h ::
  "(nat \<Rightarrow> request \<Rightarrow> OpenAIAPIResponse fetched) \<Rightarrow> string \<Rightarrow> string \<Rightarrow> string \<Rightarrow> nat
     \<Rightarrow> ThinkingMode option \<Rightarrow> heap
     \<Rightarrow> ((error + AIResponse) \<times> (request \<times> OpenAIAPIResponse fetched) list) \<times> heap" where
  "callMoonshotWithSearch_h fetch apiKey model systemPrompt messagesRef think h =
     (case OPENAI_COMPATIBLE_ENDPOINTS ''moonshot'' of
        None \<Rightarrow> ((Inl (Error ''No endpoint configured for provider: moonshot''), []), h)
      | Some u \<Rightarrow>
          if u = [] then ((Inl (Error ''No endpoint configured for provider: moonshot''), []), h)
          else
            (case alloc h (Messages (convertedMessages systemPrompt
                                       (conversationAt h messagesRef))) of
               (messagesAddr, h1) \<Rightarrow>
                 (case alloc h1 (Strings []) of
                    (queriesAddr, h2) \<Rightarrow>
                      (case toolLoop_h fetch u apiKey model think 0
                              \<lparr>store = h2, apiMessagesRef = messagesAddr,
                               searchQueriesRef = queriesAddr,
                               inputTotal = 0, outputTotal = 0, exchanged = []\<rparr> of
                         (r, ls) \<Rightarrow> ((r, exchanged ls), store ls)))))"

definition generateResponse_h ::
  "env \<Rightarrow> upstream \<Rightarrow> string \<Rightarrow> string \<Rightarrow> string \<Rightarrow> string \<Rightarrow> nat
     \<Rightarrow> GenerateResponseOptions option \<Rightarrow> heap \<Rightarrow> AIResponse outcome \<times> heap" where
  "generateResponse_h env up provider apiKey model systemPrompt messagesRef opts h =
     (if provider = ''claude''
      then (callClaude (messagesApi up) apiKey model systemPrompt (conversationAt h messagesRef), h)
      else if provider = ''moonshot''
      then (if allowWebSearch opts (conversationAt h messagesRef)
            then (case callMoonshotWithSearch_h (chatApi up) apiKey model systemPrompt messagesRef
                         (optThinking opts) h of
                    ((r, ex), h') \<Rightarrow> ((r, map fst ex), h'))
            else callOpenAICompatible_h env (chatApi up) provider apiKey model systemPrompt
                   messagesRef (optThinking opts) h)
      else if provider = ''grok''
      then (if allowWebSearch opts (conversationAt h messagesRef)
            then (callResponsesAPIWithSearch env (responsesApi up) provider apiKey model
                    systemPrompt (conversationAt h messagesRef), h)
            else callOpenAICompatible_h env (chatApi up) provider apiKey model systemPrompt
                   messagesRef (optThinking opts) h)
      else if provider = ''openai''
      then (if allowWebSearch opts (conversationAt h messagesRef)
            then (callResponsesAPIWithSearch env (responsesApi up) provider apiKey model
                    systemPrompt (conversationAt h messagesRef), h)
            else callOpenAICompatible_h env (chatApi up) provider apiKey model systemPrompt
                   messagesRef (optThinking opts) h)
      else ((Inl (Error (''Unknown AI provider: '' @ provider)), []), h))"

definition textTurn :: ConversationMessage where
  "textTurn = \<lparr>role = User, content = Text ''any news?''\<rparr>"

definition callerHeap :: heap where
  "callerHeap = [Strings [''unrelated''], Conversation [textTurn]]"

definition searchingUpstream :: upstream where
  "searchingUpstream =
     \<lparr>messagesApi = claudeSilent, chatApi = searchesOnce, responsesApi = responsesSearched\<rparr>"

text \<open>The variables of the loop as the store holds them, and the steps of one round.\<close>

definition view :: "loop_refs \<Rightarrow> loop_state" where
  "view ls =
     \<lparr>apiMessages = messagesAt (store ls) (apiMessagesRef ls),
      totalInputTokens = inputTotal ls,
      totalOutputTokens = outputTotal ls,
      searchQueries = stringsAt (store ls) (searchQueriesRef ls),
      exchanges = exchanged ls\<rparr>"

definition ownRefs :: "nat \<Rightarrow> loop_refs \<Rightarrow> bool" where
  "ownRefs n ls =
     (n \<le> apiMessagesRef ls \<and> n \<le> searchQueriesRef ls
      \<and> apiMessagesRef ls < length (store ls) \<and> searchQueriesRef ls < length (store ls)
      \<and> apiMessagesRef ls \<noteq> searchQueriesRef ls)"

definition counted_h :: "OpenAIAPIResponse \<Rightarrow> loop_refs \<Rightarrow> loop_refs" where
  "counted_h d ls = ls\<lparr>inputTotal := inputTotal ls + promptTokens d,
                       outputTotal := outputTotal ls + completionTokens d\<rparr>"

definition logged_h :: "request \<Rightarrow> OpenAIAPIResponse fetched \<Rightarrow> loop_refs \<Rightarrow> loop_refs" where
  "logged_h req res ls = ls\<lparr>exchanged := exchanged ls @ [(req, res)]\<rparr>"

definition pushed_h :: "OpenAIChoice \<Rightarrow> OpenAIToolCall list \<Rightarrow> loop_refs \<Rightarrow> loop_refs" where
  "pushed_h c tcs ls =
     ls\<lparr>store := pushMessages
                    (pushMessages
                       (pushStrings (store ls) (searchQueriesRef ls) (map fn_arguments tcs))
                       (apiMessagesRef ls) [assistantTurn c tcs])
                    (apiMessagesRef ls) (map toolTurn tcs)\<rparr>"

definition simulates :: "nat \<Rightarrow> loop_refs \<Rightarrow> round_h \<Rightarrow> round \<Rightarrow> bool" where
  "simulates n ls rh rp =
     (case rh of
        Continue_h ls' \<Rightarrow>
          rp = Continue (view ls') \<and> ownRefs n ls' \<and> take n (store ls') = take n (store ls)
      | Return_h r ls' \<Rightarrow>
          rp = Return r (view ls') \<and> ownRefs n ls' \<and> take n (store ls') = take n (store ls))"

section \<open>JavaScript strings\<close>

lemma js_eq_Nil [simp]: "js s = [] \<longleftrightarrow> s = []"
  by (simp add: js_def)

lemma js_append: "js (s @ t) = js s @ js t"
  by (simp add: js_def)

section \<open>Decimal numerals\<close>

text \<open>\<open>digits\<close> writes a number in decimal notation.\<close>

lemma digitValue_nth:
  assumes "k < 10"
  shows "digitValue (''0123456789'' ! k) = k"
proof -
  from assms have "k = 0 \<or> k = 1 \<or> k = 2 \<or> k = 3 \<or> k = 4 \<or> k = 5 \<or> k = 6 \<or> k = 7 \<or> k = 8 \<or> k = 9"
    by arith
  then show ?thesis
    by (elim disjE) (simp_all add: digitValue_def)
qed

lemma decimalValue_digits: "decimalValue (digits n) = n"
proof (induction n rule: digits.induct)
  case (1 n)
  show ?case
  proof (cases "n < 10")
    case True
    then show ?thesis
      by (subst digits.simps) (simp add: decimalValue_def digitValue_nth)
  next
    case False
    have m: "n mod 10 < 10" by simp
    from False "1.IH" have "decimalValue (digits (n div 10)) = n div 10" by simp
    with False m show ?thesis
      by (subst digits.simps) (simp add: decimalValue_def digitValue_nth)
  qed
qed

section \<open>Properties of the tool-call loop\<close>

lemma map_filter_snoc:
  "List.map_filter f (xs @ [x]) = List.map_filter f xs @ (case f x of None \<Rightarrow> [] | Some y \<Rightarrow> [y])"
  by (simp add: List.map_filter_def split: option.splits)


lemma toolRound_classified:
  "toolRound fetch u apiKey model think i st =
     (let req = moonshotRequest u apiKey model think (apiMessages st);
          res = fetch i req;
          st1 = logged req res st
      in case classify res of
           SFailed e \<Rightarrow> Return (Inl (Rejected e)) st1
         | SStatus status txt \<Rightarrow> Return (Inl (apiError ''moonshot'' status txt)) st1
         | SNoJson \<Rightarrow> Return (Inl (Rejected ''response.json()'')) st1
         | SNoChoices d \<Rightarrow> Return (Inl NoChoicesError) (counted d st1)
         | SFinal d c \<Rightarrow> Return (Inr (loopResult c (counted d st1))) (counted d st1)
         | SCalls d c tcs \<Rightarrow>
             Continue ((counted d st1)\<lparr>searchQueries :=
                                          searchQueries (counted d st1) @ map fn_arguments tcs,
                                        apiMessages :=
                                          apiMessages (counted d st1)
                                          @ [assistantTurn c tcs] @ map toolTurn tcs\<rparr>))"
  unfolding toolRound_def classify_def counted_def logged_def Let_def
  by (simp split: fetched.split option.split list.split)


lemma classify_received:
  "received res =
     (case classify res of
        SFailed e \<Rightarrow> None | SStatus status txt \<Rightarrow> None | SNoJson \<Rightarrow> None
      | SNoChoices d \<Rightarrow> Some d | SFinal d c \<Rightarrow> Some d | SCalls d c tcs \<Rightarrow> Some d)"
  unfolding received_def classify_def
  by (simp split: fetched.split option.split list.split)

lemma classify_requestedCalls:
  "requestedCalls res = (case classify res of SCalls d c tcs \<Rightarrow> Some tcs | _ \<Rightarrow> None)"
  unfolding requestedCalls_def received_def classify_def
  by (simp split: fetched.split option.split list.split)

lemma sum_reportedPrompt:
  "sum_list (case reportedPrompt res of None \<Rightarrow> [] | Some y \<Rightarrow> [y])
     = (case received res of None \<Rightarrow> 0 | Some d \<Rightarrow> promptTokens d)"
  by (simp add: reportedPrompt_def promptTokens_def split: option.split)

lemma sum_reportedCompletion:
  "sum_list (case reportedCompletion res of None \<Rightarrow> [] | Some y \<Rightarrow> [y])
     = (case received res of None \<Rightarrow> 0 | Some d \<Rightarrow> completionTokens d)"
  by (simp add: reportedCompletion_def completionTokens_def split: option.split)

lemma loopInv_logged:
  assumes "loopInv st" and "received res = None"
  shows "loopInv (logged req res st)"
proof -
  have "requestedCalls res = None"
    using assms(2) by (simp add: requestedCalls_def)
  with assms sum_reportedPrompt [of res] sum_reportedCompletion [of res] show ?thesis
    by (simp add: loopInv_def logged_def map_filter_snoc)
qed

lemma loopInv_counted:
  assumes "loopInv st" and "received res = Some d" and "requestedCalls res = None"
  shows "loopInv (counted d (logged req res st))"
  using assms sum_reportedPrompt [of res] sum_reportedCompletion [of res]
  by (simp add: loopInv_def logged_def counted_def map_filter_snoc)

lemma loopInv_calls:
  assumes "loopInv st" and "received res = Some d" and "requestedCalls res = Some tcs"
  shows "loopInv ((counted d (logged req res st))
                    \<lparr>searchQueries := searchQueries (counted d (logged req res st))
                                        @ map fn_arguments tcs,
                      apiMessages := msgs\<rparr>)"
  using assms sum_reportedPrompt [of res] sum_reportedCompletion [of res]
  by (simp add: loopInv_def logged_def counted_def map_filter_snoc)


lemma classify_SFinal:
  "classify res = SFinal d c \<Longrightarrow> \<exists>cs. choices d = c # cs"
  unfolding classify_def
  by (simp split: fetched.splits option.splits list.splits if_splits)

lemma toolRound_Continue:
  assumes "toolRound fetch u apiKey model think i st = Continue st'"
  shows "\<exists>res. res = fetch i (moonshotRequest u apiKey model think (apiMessages st))
            \<and> exchanges st' = exchanges st @ [(moonshotRequest u apiKey model think (apiMessages st), res)]
            \<and> requestedCalls res \<noteq> None
            \<and> (loopInv st \<longrightarrow> loopInv st')"
proof -
  define req where "req = moonshotRequest u apiKey model think (apiMessages st)"
  define res where "res = fetch i req"
  note R = toolRound_classified [of fetch u apiKey model think i st, unfolded Let_def,
      folded req_def, folded res_def]
  show ?thesis
  proof (cases "classify res")
    case (SCalls d c tcs)
    with R assms have st': "st' = (counted d (logged req res st))
          \<lparr>searchQueries := searchQueries (counted d (logged req res st)) @ map fn_arguments tcs,
            apiMessages := apiMessages (counted d (logged req res st))
                           @ [assistantTurn c tcs] @ map toolTurn tcs\<rparr>"
      by simp
    have rc: "received res = Some d" "requestedCalls res = Some tcs"
      using SCalls by (simp_all add: classify_received classify_requestedCalls)
    have ex: "exchanges st' = exchanges st @ [(req, res)]"
      by (simp add: st' counted_def logged_def)
    have inv: "loopInv st' " if "loopInv st"
      unfolding st' by (rule loopInv_calls [OF that rc])
    show ?thesis
      using ex rc inv by (auto simp: req_def res_def)
  qed (use R assms in simp_all)
qed

lemma toolRound_Return:
  assumes "toolRound fetch u apiKey model think i st = Return r st'"
  shows "\<exists>res. res = fetch i (moonshotRequest u apiKey model think (apiMessages st))
            \<and> exchanges st' = exchanges st @ [(moonshotRequest u apiKey model think (apiMessages st), res)]
            \<and> requestedCalls res = None
            \<and> r \<noteq> Inl ToolLoopExceededError
            \<and> (loopInv st \<longrightarrow> loopInv st')
            \<and> resultOf r st'"
proof -
  define req where "req = moonshotRequest u apiKey model think (apiMessages st)"
  define res where "res = fetch i req"
  note R = toolRound_classified [of fetch u apiKey model think i st, unfolded Let_def,
      folded req_def, folded res_def]
  have nc: "requestedCalls res = None" if "\<And>d c tcs. classify res \<noteq> SCalls d c tcs"
    using that by (simp add: classify_requestedCalls split: step.split)
  show ?thesis
  proof (cases "classify res")
    case (SFailed e)
    with R assms have "r = Inl (Rejected e)" "st' = logged req res st" by simp_all
    moreover have "received res = None" using SFailed by (simp add: classify_received)
    moreover have "requestedCalls res = None" using SFailed by (simp add: nc)
    ultimately show ?thesis
      using loopInv_logged [of st res req]
      by (simp add: req_def res_def logged_def ToolLoopExceededError_def resultOf_def)
  next
    case (SStatus status t)
    with R assms have "r = Inl (apiError ''moonshot'' status t)" "st' = logged req res st"
      by simp_all
    moreover have "received res = None" using SStatus by (simp add: classify_received)
    moreover have "requestedCalls res = None" using SStatus by (simp add: nc)
    ultimately show ?thesis
      using loopInv_logged [of st res req]
      by (simp add: req_def res_def logged_def ToolLoopExceededError_def apiError_def resultOf_def)
  next
    case SNoJson
    with R assms have "r = Inl (Rejected ''response.json()'')" "st' = logged req res st"
      by simp_all
    moreover have "received res = None" using SNoJson by (simp add: classify_received)
    moreover have "requestedCalls res = None" using SNoJson by (simp add: nc)
    ultimately show ?thesis
      using loopInv_logged [of st res req]
      by (simp add: req_def res_def logged_def ToolLoopExceededError_def resultOf_def)
  next
    case (SNoChoices d)
    with R assms have "r = Inl NoChoicesError" "st' = counted d (logged req res st)"
      by simp_all
    moreover have "received res = Some d" using SNoChoices by (simp add: classify_received)
    moreover have "requestedCalls res = None" using SNoChoices by (simp add: nc)
    ultimately show ?thesis
      using loopInv_counted [of st res d req]
      by (simp add: req_def res_def logged_def counted_def ToolLoopExceededError_def
          NoChoicesError_def resultOf_def)
  next
    case (SFinal d c)
    with R assms have "r = Inr (loopResult c st')" "st' = counted d (logged req res st)"
      by simp_all
    moreover have "received res = Some d" using SFinal by (simp add: classify_received)
    moreover have "requestedCalls res = None" using SFinal by (simp add: nc)
    moreover have "\<exists>cs. choices d = c # cs" using SFinal by (rule classify_SFinal)
    ultimately show ?thesis
      using loopInv_counted [of st res d req]
      by (auto simp: req_def res_def logged_def counted_def loopResult_def resultOf_def
          lastContent_def)
  next
    case (SCalls d c tcs)
    with R assms show ?thesis by simp
  qed
qed


lemma toolLoop_summary:
  assumes "toolLoop fetch u apiKey model think i st = (r, st')"
    and "i \<le> MAX_TOOL_ITERATIONS"
  shows "\<exists>new. exchanges st' = exchanges st @ new
            \<and> length new \<le> MAX_TOOL_ITERATIONS - i
            \<and> (r = Inl ToolLoopExceededError \<longleftrightarrow>
                 length new = MAX_TOOL_ITERATIONS - i
                 \<and> list_all (\<lambda>e. requestedCalls (snd e) \<noteq> None) new)
            \<and> list_all (\<lambda>e. \<exists>msgs. fst e = moonshotRequest u apiKey model think msgs) new
            \<and> (loopInv st \<longrightarrow> loopInv st')
            \<and> resultOf r st'"
  using assms
proof (induction fetch u apiKey model think i st rule: toolLoop.induct)
  case (1 fetch u apiKey model think i st)
  show ?case
  proof (cases "i < MAX_TOOL_ITERATIONS")
    case False
    with "1.prems" have "r = Inl ToolLoopExceededError" "st' = st" "i = MAX_TOOL_ITERATIONS"
      by (simp_all add: toolLoop.simps)
    then have "exchanges st' = exchanges st @ []
            \<and> length ([] :: (request \<times> OpenAIAPIResponse fetched) list) \<le> MAX_TOOL_ITERATIONS - i
            \<and> (r = Inl ToolLoopExceededError \<longleftrightarrow>
                 length ([] :: (request \<times> OpenAIAPIResponse fetched) list) = MAX_TOOL_ITERATIONS - i
                 \<and> list_all (\<lambda>e. requestedCalls (snd e) \<noteq> None) [])
            \<and> list_all (\<lambda>e. \<exists>msgs. fst e = moonshotRequest u apiKey model think msgs) []
            \<and> (loopInv st \<longrightarrow> loopInv st')
            \<and> resultOf r st'"
      by (simp add: resultOf_def)
    then show ?thesis by blast
  next
    case True
    define req where "req = moonshotRequest u apiKey model think (apiMessages st)"
    show ?thesis
    proof (cases "toolRound fetch u apiKey model think i st")
      case (Continue st2)
      with True "1.prems" have L: "toolLoop fetch u apiKey model think (Suc i) st2 = (r, st')"
        by (simp add: toolLoop.simps)
      from True have S: "Suc i \<le> MAX_TOOL_ITERATIONS" by simp
      from "1.IH" [OF True Continue L S] obtain new where
        n1: "exchanges st' = exchanges st2 @ new"
        and n2: "length new \<le> MAX_TOOL_ITERATIONS - Suc i"
        and n3: "r = Inl ToolLoopExceededError \<longleftrightarrow>
                   length new = MAX_TOOL_ITERATIONS - Suc i
                   \<and> list_all (\<lambda>e. requestedCalls (snd e) \<noteq> None) new"
        and n4: "list_all (\<lambda>e. \<exists>msgs. fst e = moonshotRequest u apiKey model think msgs) new"
        and n5: "loopInv st2 \<longrightarrow> loopInv st'"
        and n6: "resultOf r st'"
        by blast
      from toolRound_Continue [OF Continue] obtain res where
        c1: "exchanges st2 = exchanges st @ [(req, res)]"
        and c2: "requestedCalls res \<noteq> None"
        and c3: "loopInv st \<longrightarrow> loopInv st2"
        unfolding req_def by blast
      have m1: "exchanges st' = exchanges st @ ((req, res) # new)"
        using n1 c1 by simp
      have m2: "length ((req, res) # new) \<le> MAX_TOOL_ITERATIONS - i"
        using n2 True by simp
      have m3: "r = Inl ToolLoopExceededError \<longleftrightarrow>
                  length ((req, res) # new) = MAX_TOOL_ITERATIONS - i
                  \<and> list_all (\<lambda>e. requestedCalls (snd e) \<noteq> None) ((req, res) # new)"
        using n3 c2 True by auto
      have m4: "list_all (\<lambda>e. \<exists>msgs. fst e = moonshotRequest u apiKey model think msgs)
                  ((req, res) # new)"
        using n4 by (auto simp: req_def)
      have m5: "loopInv st \<longrightarrow> loopInv st'"
        using n5 c3 by simp
      from m1 m2 m3 m4 m5 n6 show ?thesis by blast
    next
      case (Return r2 st2)
      with True "1.prems" have eq: "r = r2" "st' = st2"
        by (simp_all add: toolLoop.simps)
      from toolRound_Return [OF Return] obtain res where
        c1: "exchanges st2 = exchanges st @ [(req, res)]"
        and c2: "requestedCalls res = None"
        and c3: "r2 \<noteq> Inl ToolLoopExceededError"
        and c4: "loopInv st \<longrightarrow> loopInv st2"
        and c5: "resultOf r2 st2"
        unfolding req_def by blast
      have m2: "length [(req, res)] \<le> MAX_TOOL_ITERATIONS - i"
        using True by simp
      have m3: "r = Inl ToolLoopExceededError \<longleftrightarrow>
                  length [(req, res)] = MAX_TOOL_ITERATIONS - i
                  \<and> list_all (\<lambda>e. requestedCalls (snd e) \<noteq> None) [(req, res)]"
        using c2 c3 eq by simp
      have m4: "list_all (\<lambda>e. \<exists>msgs. fst e = moonshotRequest u apiKey model think msgs)
                  [(req, res)]"
        by (auto simp: req_def)
      from c1 m2 m3 m4 c4 c5 eq show ?thesis by blast
    qed
  qed
qed


lemma callMoonshotWithSearch_unfold:
  "callMoonshotWithSearch fetch apiKey model systemPrompt messages think =
     (case toolLoop fetch (js ''https://api.moonshot.ai/v1/chat/completions'') apiKey model think 0
             (initialState systemPrompt messages) of
        (r, st) \<Rightarrow> (r, exchanges st))"
  by (simp add: callMoonshotWithSearch_def OPENAI_COMPATIBLE_ENDPOINTS_def)

lemma loopInv_initialState: "loopInv (initialState systemPrompt messages)"
  by (simp add: loopInv_def initialState_def List.map_filter_def)

lemma callMoonshotWithSearch_summary:
  assumes "callMoonshotWithSearch fetch apiKey model systemPrompt messages think = (r, ex)"
  shows "\<exists>st. exchanges st = ex \<and> loopInv st \<and> resultOf r st
           \<and> length ex \<le> MAX_TOOL_ITERATIONS
           \<and> (r = Inl ToolLoopExceededError \<longleftrightarrow>
                length ex = MAX_TOOL_ITERATIONS
                \<and> list_all (\<lambda>e. requestedCalls (snd e) \<noteq> None) ex)
           \<and> list_all (\<lambda>e. \<exists>msgs. fst e = moonshotRequest
                   (js ''https://api.moonshot.ai/v1/chat/completions'') apiKey model think msgs) ex"
proof -
  obtain st where L: "toolLoop fetch (js ''https://api.moonshot.ai/v1/chat/completions'') apiKey model
                        think 0 (initialState systemPrompt messages) = (r, st)"
    and ex: "ex = exchanges st"
    using assms by (auto simp: callMoonshotWithSearch_unfold split: prod.splits)
  have e0: "exchanges (initialState systemPrompt messages) = []"
    by (simp add: initialState_def)
  from toolLoop_summary [OF L] loopInv_initialState [of systemPrompt messages] e0 ex
  show ?thesis by auto
qed

lemma toolLoop_stop_first:
  assumes "fetch i (moonshotRequest u apiKey model think (apiMessages st)) = Response status t (Some d)"
    and "ok status" and "choices d = c # cs" and "finish_reason c = ''stop''"
    and "i < MAX_TOOL_ITERATIONS"
  shows "\<exists>r st'. toolLoop fetch u apiKey model think i st = (Inr r, st')
           \<and> length (exchanges st') = Suc (length (exchanges st))"
  using assms by (subst toolLoop.simps) (simp add: toolRound_def Let_def)

text \<open>
  Claim C2. One call of the tool-call loop sends at most five requests. It fails
  with the iteration error exactly when five requests were sent and every one
  of them was answered with tool calls to carry out, so a run that uses up its
  five rounds never returns an answer. When the first response carries the
  finish signal \<^verbatim>\<open>stop\<close>, exactly one request is sent and a result is returned.
\<close>

theorem tool_loop_bounded:
  "length (snd (callMoonshotWithSearch fetch apiKey model systemPrompt messages think)) \<le> 5
   \<and> (fst (callMoonshotWithSearch fetch apiKey model systemPrompt messages think)
          = Inl ToolLoopExceededError
        \<longleftrightarrow> length (snd (callMoonshotWithSearch fetch apiKey model systemPrompt messages think)) = 5
            \<and> list_all (\<lambda>e. requestedCalls (snd e) \<noteq> None)
                 (snd (callMoonshotWithSearch fetch apiKey model systemPrompt messages think)))
   \<and> ((\<exists>status t d c cs.
          fetch 0 (moonshotRequest (js ''https://api.moonshot.ai/v1/chat/completions'') apiKey model think
                     (convertedMessages systemPrompt messages)) = Response status t (Some d)
          \<and> ok status \<and> choices d = c # cs \<and> finish_reason c = ''stop'')
        \<longrightarrow> length (snd (callMoonshotWithSearch fetch apiKey model systemPrompt messages think)) = 1
            \<and> (\<exists>r. fst (callMoonshotWithSearch fetch apiKey model systemPrompt messages think)
                      = Inr r))"
proof -
  obtain r ex where E: "callMoonshotWithSearch fetch apiKey model systemPrompt messages think = (r, ex)"
    by (cases "callMoonshotWithSearch fetch apiKey model systemPrompt messages think")
  from callMoonshotWithSearch_summary [OF E]
  have a: "length ex \<le> 5"
    and b: "r = Inl ToolLoopExceededError \<longleftrightarrow>
              length ex = 5 \<and> list_all (\<lambda>e. requestedCalls (snd e) \<noteq> None) ex"
    by (auto simp: MAX_TOOL_ITERATIONS_def)
  have c: "length ex = 1 \<and> (\<exists>a. r = Inr a)"
    if "\<exists>status t d c cs.
          fetch 0 (moonshotRequest (js ''https://api.moonshot.ai/v1/chat/completions'') apiKey model think
                     (convertedMessages systemPrompt messages)) = Response status t (Some d)
          \<and> ok status \<and> choices d = c # cs \<and> finish_reason c = ''stop''"
  proof -
    from that obtain status t d c cs where
      f: "fetch 0 (moonshotRequest (js ''https://api.moonshot.ai/v1/chat/completions'') apiKey model think
                     (apiMessages (initialState systemPrompt messages))) = Response status t (Some d)"
      and o: "ok status" "choices d = c # cs" "finish_reason c = ''stop''"
      by (auto simp: initialState_def)
    have "0 < MAX_TOOL_ITERATIONS" by (simp add: MAX_TOOL_ITERATIONS_def)
    from toolLoop_stop_first [where fetch = fetch and i = 0
        and st = "initialState systemPrompt messages", OF f o this] E show ?thesis
      by (auto simp: callMoonshotWithSearch_unfold initialState_def)
  qed
  from a b c show ?thesis unfolding E by simp
qed

theorem tool_loop_bounded_witness:
  "length (snd (callMoonshotWithSearch searchesForever ''k'' ''m'' ''s'' [] None)) = 5
   \<and> fst (callMoonshotWithSearch searchesForever ''k'' ''m'' ''s'' [] None) = Inl ToolLoopExceededError
   \<and> length (snd (callMoonshotWithSearch answersAtOnce ''k'' ''m'' ''s'' [] None)) = 1"
proof -
  have ok200: "ok 200" by (simp add: ok_def)
  have stop: "\<exists>status t d c cs.
          answersAtOnce 0 (moonshotRequest (js ''https://api.moonshot.ai/v1/chat/completions'') ''k'' ''m'' None
                     (convertedMessages ''s'' [])) = Response status t (Some d)
          \<and> ok status \<and> choices d = c # cs \<and> finish_reason c = ''stop''"
    using ok200 by (simp add: answersAtOnce_def stopChoice_def)
  have run: "fst (callMoonshotWithSearch searchesForever ''k'' ''m'' ''s'' [] None)
               = Inl ToolLoopExceededError"
    by code_simp
  from tool_loop_bounded [of searchesForever "''k''" "''m''" "''s''" "[]" None] run
    tool_loop_bounded [of answersAtOnce "''k''" "''m''" "''s''" "[]" None] stop
  show ?thesis by blast
qed


text \<open>
  Claim C10. For one and the same upstream answer, a successful response whose
  list of choices is empty, the plain chat-completions adapter returns a result
  with the empty text, while the tool-call loop fails with the error
  \<^verbatim>\<open>moonshot API returned no choices\<close>.
\<close>

theorem empty_choices_diverge:
  assumes "\<forall>req. fetch 0 req = Response status t (Some d)" and "ok status" and "choices d = []"
  shows "(\<exists>r. fst (callOpenAICompatible env fetch ''moonshot'' apiKey model systemPrompt
                      messages think) = Inr r \<and> ai_text r = [])
         \<and> fst (callMoonshotWithSearch fetch apiKey model systemPrompt messages think)
             = Inl (Error ''moonshot API returned no choices'')"
proof
  show "\<exists>r. fst (callOpenAICompatible env fetch ''moonshot'' apiKey model systemPrompt
                     messages think) = Inr r \<and> ai_text r = []"
    using assms by (simp add: callOpenAICompatible_def OPENAI_COMPATIBLE_ENDPOINTS_def Let_def)
next
  have "fst (toolLoop fetch u apiKey model think 0 st) = Inl NoChoicesError" for u st
    using assms by (subst toolLoop.simps) (simp add: MAX_TOOL_ITERATIONS_def toolRound_def Let_def)
  then show "fst (callMoonshotWithSearch fetch apiKey model systemPrompt messages think)
               = Inl (Error ''moonshot API returned no choices'')"
    by (simp add: callMoonshotWithSearch_unfold NoChoicesError_def split: prod.splits)
       (metis fst_conv)
qed

theorem empty_choices_diverge_witness:
  "fst (callOpenAICompatible Map.empty emptyChoices ''moonshot'' ''k'' ''m'' ''s'' [] None)
     = Inr \<lparr>ai_text = [], inputTokens = None, outputTokens = None, webSearchQueries = None\<rparr>
   \<and> fst (callMoonshotWithSearch emptyChoices ''k'' ''m'' ''s'' [] None)
       = Inl (Error ''moonshot API returned no choices'')"
proof -
  have "fst (callOpenAICompatible Map.empty emptyChoices ''moonshot'' ''k'' ''m'' ''s'' [] None)
     = Inr \<lparr>ai_text = [], inputTokens = None, outputTokens = None, webSearchQueries = None\<rparr>"
    by (simp add: callOpenAICompatible_def OPENAI_COMPATIBLE_ENDPOINTS_def Let_def
        emptyChoices_def ok_def)
  moreover have "ok 200" by (simp add: ok_def)
  ultimately show ?thesis
    using empty_choices_diverge [of emptyChoices 200 "[]" "\<lparr>choices = [], usage = None\<rparr>"
        Map.empty "''k''" "''m''" "''s''" "[]" None]
    by (simp add: emptyChoices_def)
qed

section \<open>Properties of the image resolver\<close>

lemma tooLarge_exceedsCeiling: "tooLarge sz = exceedsCeiling sz"
  by (auto simp: tooLarge_def exceedsCeiling_def MAX_IMAGE_BYTES_def split: option.splits)

text \<open>
  Claim C3, as stated, at a lookup that reports a size above the ceiling but no
  file path: the resolver fails, but with the missing-path error, since the
  path is examined before the reported size.
\<close>

theorem image_ceiling_counterexample:
  "exceedsCeiling (file_size \<lparr>file_path = None, file_size = Some 6000000\<rparr>)
   \<and> fst (getFile reportsSizeOnly ''token'' (fileId textOnlyPhoto))
       = Inr \<lparr>file_path = None, file_size = Some 6000000\<rparr>
   \<and> fst (fetchImageForModel reportsSizeOnly None ''token'' textOnlyPhoto)
       = Inl (Error ''IMAGE_FILE_PATH_MISSING'')
   \<and> fst (fetchImageForModel reportsSizeOnly None ''token'' textOnlyPhoto) \<noteq> Inl ImageTooLargeError"
  by (simp add: exceedsCeiling_def fetchImageForModel_def getFile_def reportsSizeOnly_def
      textOnlyPhoto_def tooLarge_def ok_def Let_def ImageMetadataMissingError_def
      ImageTooLargeError_def)

text \<open>
  Claim C3, amended. The resolver fails with the too-large error (1) when the
  declared size exceeds the ceiling, before any network call; (2) when the
  lookup succeeds with a file path and a reported size above the ceiling, after
  the lookup and before any download; (3) when the download succeeds and the
  length of the downloaded bytes exceeds the ceiling, whatever the declared and
  reported sizes were that let the download happen.
\<close>

theorem image_ceiling:
  "(exceedsCeiling (fileSize img) \<longrightarrow>
      fetchImageForModel tg encoder token img = (Inl ImageTooLargeError, []))
   \<and> (\<not> exceedsCeiling (fileSize img)
        \<and> getFile tg token (fileId img) = (Inr info, calls)
        \<and> file_path info = Some path \<and> path \<noteq> [] \<and> exceedsCeiling (file_size info) \<longrightarrow>
      fetchImageForModel tg encoder token img = (Inl ImageTooLargeError, calls))
   \<and> (\<not> exceedsCeiling (fileSize img)
        \<and> getFile tg token (fileId img) = (Inr info, calls)
        \<and> file_path info = Some path \<and> path \<noteq> [] \<and> \<not> exceedsCeiling (file_size info)
        \<and> downloadTelegramFile tg token path = (Inr dl, calls')
        \<and> int (length (bytes dl)) > 5 * 1024 * 1024 \<longrightarrow>
      fetchImageForModel tg encoder token img = (Inl ImageTooLargeError, calls @ calls'))"
  by (simp add: fetchImageForModel_def tooLarge_exceedsCeiling MAX_IMAGE_BYTES_def)

theorem image_ceiling_witness:
  "fetchImageForModel reportsLarge None ''token'' largePhoto = (Inl ImageTooLargeError, [])
   \<and> fst (fetchImageForModel reportsLarge None ''token'' textOnlyPhoto) = Inl ImageTooLargeError
   \<and> length (snd (fetchImageForModel reportsLarge None ''token'' textOnlyPhoto)) = 1
   \<and> fst (fetchImageForModel servesLarge None ''token'' textOnlyPhoto) = Inl ImageTooLargeError
   \<and> length (snd (fetchImageForModel servesLarge None ''token'' textOnlyPhoto)) = 2"
proof -
  have big: "exceedsCeiling (fileSize largePhoto)" and small: "\<not> exceedsCeiling (fileSize textOnlyPhoto)"
    by (simp_all add: exceedsCeiling_def largePhoto_def textOnlyPhoto_def)
  obtain info calls where g: "getFile reportsLarge ''token'' (fileId textOnlyPhoto) = (Inr info, calls)"
    and i: "file_path info = Some ''photos/file.jpg''" "exceedsCeiling (file_size info)"
    and c: "length calls = 1"
    by (simp add: getFile_def reportsLarge_def ok_def Let_def exceedsCeiling_def)
  obtain info2 calls2 where g2: "getFile servesLarge ''token'' (fileId textOnlyPhoto) = (Inr info2, calls2)"
    and i2: "file_path info2 = Some ''photos/file.jpg''" "\<not> exceedsCeiling (file_size info2)"
    and c2: "length calls2 = 1"
    by (simp add: getFile_def servesLarge_def ok_def Let_def exceedsCeiling_def)
  obtain dl calls3 where d: "downloadTelegramFile servesLarge ''token'' ''photos/file.jpg'' = (Inr dl, calls3)"
    and l: "int (length (bytes dl)) > 5 * 1024 * 1024" and c3: "length calls3 = 1"
    by (simp add: downloadTelegramFile_def servesLarge_def ok_def Let_def)
  have p: "''photos/file.jpg'' \<noteq> []" by simp
  from image_ceiling [of largePhoto reportsLarge None "''token''"] big
  have 1: "fetchImageForModel reportsLarge None ''token'' largePhoto = (Inl ImageTooLargeError, [])"
    by blast
  from image_ceiling [of textOnlyPhoto reportsLarge None "''token''" info calls "''photos/file.jpg''"]
    small g i p
  have 2: "fetchImageForModel reportsLarge None ''token'' textOnlyPhoto = (Inl ImageTooLargeError, calls)"
    by blast
  from image_ceiling [of textOnlyPhoto servesLarge None "''token''" info2 calls2 "''photos/file.jpg''"
      dl calls3] small g2 i2 p d l
  have 3: "fetchImageForModel servesLarge None ''token'' textOnlyPhoto
             = (Inl ImageTooLargeError, calls2 @ calls3)"
    by blast
  from 1 2 3 c c2 c3 show ?thesis by simp
qed


section \<open>Properties of the single-call adapters\<close>

lemma received_Some:
  "received res = Some d \<longleftrightarrow> (\<exists>status t. res = Response status t (Some d) \<and> ok status)"
  by (cases res) (auto simp: received_def)

lemma received_None:
  "received res = None \<longleftrightarrow>
     (\<exists>e. res = FetchFailed e) \<or> (\<exists>status t. res = Response status t None \<and> ok status)
     \<or> (\<exists>status t p. res = Response status t p \<and> \<not> ok status)"
  by (cases res) (auto simp: received_def)

lemma callClaude_requests:
  "snd (callClaude fetch apiKey model systemPrompt messages)
     = [claudeRequest apiKey model systemPrompt messages]"
  by (simp add: callClaude_def Let_def split: fetched.split option.split)

lemma callClaude_Some:
  assumes "received (fetch 0 (claudeRequest apiKey model systemPrompt messages)) = Some d"
  shows "fst (callClaude fetch apiKey model systemPrompt messages)
           = Inr \<lparr>ai_text = (case claude_content d of [] \<Rightarrow> [] | t # _ \<Rightarrow> t),
                   inputTokens = (case claude_usage d of None \<Rightarrow> None | Some us \<Rightarrow> input_tokens us),
                   outputTokens = (case claude_usage d of None \<Rightarrow> None | Some us \<Rightarrow> output_tokens us),
                   webSearchQueries = None\<rparr>"
  using assms by (auto simp: callClaude_def Let_def received_Some)

lemma callClaude_None:
  assumes "received (fetch 0 (claudeRequest apiKey model systemPrompt messages)) = None"
  shows "\<exists>e. fst (callClaude fetch apiKey model systemPrompt messages) = Inl e"
  using assms by (auto simp: callClaude_def Let_def received_None)

lemma callClaude_result:
  assumes "fst (callClaude fetch apiKey model systemPrompt messages) = Inr r"
  shows "\<exists>d. received (fetch 0 (claudeRequest apiKey model systemPrompt messages)) = Some d
           \<and> r = \<lparr>ai_text = (case claude_content d of [] \<Rightarrow> [] | t # _ \<Rightarrow> t),
                   inputTokens = (case claude_usage d of None \<Rightarrow> None | Some us \<Rightarrow> input_tokens us),
                   outputTokens = (case claude_usage d of None \<Rightarrow> None | Some us \<Rightarrow> output_tokens us),
                   webSearchQueries = None\<rparr>"
proof (cases "received (fetch 0 (claudeRequest apiKey model systemPrompt messages))")
  case None
  from callClaude_None [where fetch = fetch, OF None] assms show ?thesis by auto
next
  case (Some d)
  from callClaude_Some [where fetch = fetch, OF Some] assms show ?thesis using Some by auto
qed

lemma callOpenAICompatible_requests:
  "snd (callOpenAICompatible env fetch provider apiKey model systemPrompt messages think) = []
   \<or> (\<exists>u. snd (callOpenAICompatible env fetch provider apiKey model systemPrompt messages think)
             = [chatRequest u provider apiKey model systemPrompt messages think]
          \<and> (provider \<noteq> ''openai'' \<longrightarrow> OPENAI_COMPATIBLE_ENDPOINTS provider = Some u)
          \<and> (provider = ''openai'' \<longrightarrow> u = getOpenAIChatCompletionsUrl env))"
  by (simp add: callOpenAICompatible_def chatRequest_def Let_def
      split: fetched.split option.split)

lemma callOpenAICompatible_Some:
  assumes "received (fetch 0 (chatRequest u provider apiKey model systemPrompt messages think)) = Some d"
    and "(if provider = ''openai'' then Some (getOpenAIChatCompletionsUrl env)
          else OPENAI_COMPATIBLE_ENDPOINTS provider) = Some u" and "u \<noteq> []"
  shows "callOpenAICompatible env fetch provider apiKey model systemPrompt messages think
           = (Inr \<lparr>ai_text = (case choices d of [] \<Rightarrow> []
                               | c # _ \<Rightarrow> (case msg_content (message c) of None \<Rightarrow> [] | Some s \<Rightarrow> s)),
                   inputTokens = (case usage d of None \<Rightarrow> None | Some us \<Rightarrow> prompt_tokens us),
                   outputTokens = (case usage d of None \<Rightarrow> None | Some us \<Rightarrow> completion_tokens us),
                   webSearchQueries = None\<rparr>,
              [chatRequest u provider apiKey model systemPrompt messages think])"
  using assms(1) unfolding callOpenAICompatible_def assms(2) chatRequest_def
  by (auto simp: Let_def received_Some assms(3))

lemma callOpenAICompatible_None:
  assumes "received (fetch 0 (chatRequest u provider apiKey model systemPrompt messages think)) = None"
    and "(if provider = ''openai'' then Some (getOpenAIChatCompletionsUrl env)
          else OPENAI_COMPATIBLE_ENDPOINTS provider) = Some u"
  shows "\<exists>e. fst (callOpenAICompatible env fetch provider apiKey model systemPrompt messages think)
              = Inl e"
  using assms(1) unfolding callOpenAICompatible_def assms(2) chatRequest_def
  by (auto simp: Let_def received_None)

lemma callOpenAICompatible_noUrl:
  assumes "(if provider = ''openai'' then Some (getOpenAIChatCompletionsUrl env)
          else OPENAI_COMPATIBLE_ENDPOINTS provider) = None"
  shows "\<exists>e. callOpenAICompatible env fetch provider apiKey model systemPrompt messages think
              = (Inl e, [])"
  unfolding callOpenAICompatible_def assms by simp

lemma callOpenAICompatible_result:
  assumes "callOpenAICompatible env fetch provider apiKey model systemPrompt messages think
             = (Inr r, reqs)"
  shows "\<exists>req d. reqs = [req] \<and> received (fetch 0 req) = Some d
           \<and> r = \<lparr>ai_text = (case choices d of [] \<Rightarrow> []
                               | c # _ \<Rightarrow> (case msg_content (message c) of None \<Rightarrow> [] | Some s \<Rightarrow> s)),
                   inputTokens = (case usage d of None \<Rightarrow> None | Some us \<Rightarrow> prompt_tokens us),
                   outputTokens = (case usage d of None \<Rightarrow> None | Some us \<Rightarrow> completion_tokens us),
                   webSearchQueries = None\<rparr>"
proof (cases "if provider = ''openai'' then Some (getOpenAIChatCompletionsUrl env)
          else OPENAI_COMPATIBLE_ENDPOINTS provider")
  case None
  from callOpenAICompatible_noUrl [OF None, of fetch apiKey model systemPrompt messages think] assms
  show ?thesis by auto
next
  case (Some u)
  show ?thesis
  proof (cases "received (fetch 0 (chatRequest u provider apiKey model systemPrompt messages think))")
    case None
    from callOpenAICompatible_None [where fetch = fetch, OF None Some] assms show ?thesis by auto
  next
    case d: (Some d)
    show ?thesis
    proof (cases "u = []")
      case True
      with Some assms show ?thesis
        unfolding callOpenAICompatible_def by simp
    next
      case False
      from callOpenAICompatible_Some [where fetch = fetch, OF d Some False] assms d show ?thesis by auto
    qed
  qed
qed

lemma callResponsesAPIWithSearch_requests:
  "snd (callResponsesAPIWithSearch env fetch provider apiKey model systemPrompt messages) = []
   \<or> (\<exists>u. snd (callResponsesAPIWithSearch env fetch provider apiKey model systemPrompt messages)
             = [responsesRequest u apiKey model systemPrompt messages]
          \<and> (provider \<noteq> ''openai'' \<longrightarrow> RESPONSES_API_ENDPOINTS provider = Some u)
          \<and> (provider = ''openai'' \<longrightarrow> u = getOpenAIResponsesUrl env))"
  by (simp add: callResponsesAPIWithSearch_def responsesRequest_def Let_def
      split: fetched.split option.split)

lemma callResponsesAPIWithSearch_Some:
  assumes "received (fetch 0 (responsesRequest u apiKey model systemPrompt messages)) = Some d"
    and "(if provider = ''openai'' then Some (getOpenAIResponsesUrl env)
          else RESPONSES_API_ENDPOINTS provider) = Some u" and "u \<noteq> []"
  shows "callResponsesAPIWithSearch env fetch provider apiKey model systemPrompt messages
           = (Inr \<lparr>ai_text = responsesText d,
                   inputTokens = (case resp_usage d of None \<Rightarrow> None | Some us \<Rightarrow> prompt_tokens us),
                   outputTokens = (case resp_usage d of None \<Rightarrow> None | Some us \<Rightarrow> completion_tokens us),
                   webSearchQueries =
                     (if filter isWebSearchCall (resp_output d) = [] then None
                      else Some [''web_search (''
                                 @ digits (length (filter isWebSearchCall (resp_output d)))
                                 @ '' call(s))''])\<rparr>,
              [responsesRequest u apiKey model systemPrompt messages])"
  using assms(1) unfolding callResponsesAPIWithSearch_def assms(2) responsesRequest_def
  by (auto simp: Let_def received_Some assms(3))

lemma callResponsesAPIWithSearch_None:
  assumes "received (fetch 0 (responsesRequest u apiKey model systemPrompt messages)) = None"
    and "(if provider = ''openai'' then Some (getOpenAIResponsesUrl env)
          else RESPONSES_API_ENDPOINTS provider) = Some u"
  shows "\<exists>e. fst (callResponsesAPIWithSearch env fetch provider apiKey model systemPrompt messages)
              = Inl e"
  using assms(1) unfolding callResponsesAPIWithSearch_def assms(2) responsesRequest_def
  by (auto simp: Let_def received_None)

lemma callResponsesAPIWithSearch_noUrl:
  assumes "(if provider = ''openai'' then Some (getOpenAIResponsesUrl env)
          else RESPONSES_API_ENDPOINTS provider) = None"
  shows "\<exists>e. callResponsesAPIWithSearch env fetch provider apiKey model systemPrompt messages
              = (Inl e, [])"
  unfolding callResponsesAPIWithSearch_def assms by simp

lemma callResponsesAPIWithSearch_result:
  assumes "callResponsesAPIWithSearch env fetch provider apiKey model systemPrompt messages
             = (Inr r, reqs)"
  shows "\<exists>req d. reqs = [req] \<and> received (fetch 0 req) = Some d
           \<and> r = \<lparr>ai_text = responsesText d,
                   inputTokens = (case resp_usage d of None \<Rightarrow> None | Some us \<Rightarrow> prompt_tokens us),
                   outputTokens = (case resp_usage d of None \<Rightarrow> None | Some us \<Rightarrow> completion_tokens us),
                   webSearchQueries =
                     (if filter isWebSearchCall (resp_output d) = [] then None
                      else Some [''web_search (''
                                 @ digits (length (filter isWebSearchCall (resp_output d)))
                                 @ '' call(s))''])\<rparr>"
proof (cases "if provider = ''openai'' then Some (getOpenAIResponsesUrl env)
          else RESPONSES_API_ENDPOINTS provider")
  case None
  from callResponsesAPIWithSearch_noUrl [OF None, of fetch apiKey model systemPrompt messages] assms
  show ?thesis by auto
next
  case (Some u)
  show ?thesis
  proof (cases "received (fetch 0 (responsesRequest u apiKey model systemPrompt messages))")
    case None
    from callResponsesAPIWithSearch_None [where fetch = fetch, OF None Some] assms show ?thesis by auto
  next
    case d: (Some d)
    show ?thesis
    proof (cases "u = []")
      case True
      with Some assms show ?thesis
        unfolding callResponsesAPIWithSearch_def by simp
    next
      case False
      from callResponsesAPIWithSearch_Some [where fetch = fetch, OF d Some False] assms d show ?thesis by auto
    qed
  qed
qed

lemma filter_isWebSearchCall:
  "length (filter isWebSearchCall items) = count_list items WebSearchOutput"
  by (induction items) (auto simp: isWebSearchCall_def split: ResponsesAPIOutput.splits)

lemma hasImage_iff:
  "hasImage messages \<longleftrightarrow>
     (\<exists>m \<in> set messages. \<exists>ps. content m = Parts ps \<and> (\<exists>mt d. ImagePart mt d \<in> set ps))"
proof -
  have "isImage p \<longleftrightarrow> (\<exists>mt d. p = ImagePart mt d)" for p
    by (cases p) (simp_all add: isImage_def)
  then have parts: "list_ex isImage ps \<longleftrightarrow> (\<exists>mt d. ImagePart mt d \<in> set ps)" for ps
    by (auto simp: list_ex_iff)
  have "(case content m of Parts ps \<Rightarrow> list_ex isImage ps | Text _ \<Rightarrow> False)
          \<longleftrightarrow> (\<exists>ps. content m = Parts ps \<and> (\<exists>mt d. ImagePart mt d \<in> set ps))"
    for m :: ConversationMessage
    by (cases "content m") (simp_all add: parts)
  then show ?thesis
    by (simp add: hasImage_def list_ex_iff)
qed

section \<open>Request bodies\<close>

lemma callOpenAICompatible_sent:
  "snd (callOpenAICompatible env fetch provider apiKey model systemPrompt messages think) =
     (case (if provider = ''openai'' then Some (getOpenAIChatCompletionsUrl env)
            else OPENAI_COMPATIBLE_ENDPOINTS provider) of
        None \<Rightarrow> []
      | Some u \<Rightarrow> if u = [] then []
                  else [chatRequest u provider apiKey model systemPrompt messages think])"
  by (simp add: callOpenAICompatible_def chatRequest_def Let_def
      split: fetched.split option.split)

lemma callResponsesAPIWithSearch_sent:
  "snd (callResponsesAPIWithSearch env fetch provider apiKey model systemPrompt messages) =
     (case (if provider = ''openai'' then Some (getOpenAIResponsesUrl env)
            else RESPONSES_API_ENDPOINTS provider) of
        None \<Rightarrow> []
      | Some u \<Rightarrow> if u = [] then []
                  else [responsesRequest u apiKey model systemPrompt messages])"
  by (simp add: callResponsesAPIWithSearch_def responsesRequest_def Let_def
      split: fetched.split option.split)

lemma max_tokens_claudeRequest:
  "field ''max_tokens'' (body (claudeRequest apiKey model systemPrompt messages)) = Some (JNum 1024)"
  by (simp add: claudeRequest_def field_def)

lemma max_tokens_chatRequest:
  "field ''max_tokens'' (body (chatRequest u provider apiKey model systemPrompt messages think))
     = Some (JNum 1024)"
  by (simp add: chatRequest_def chatPayload_def field_def)

lemma max_tokens_moonshotRequest:
  "field ''max_tokens'' (body (moonshotRequest u apiKey model think msgs)) = Some (JNum 1024)"
  by (simp add: moonshotRequest_def field_def)

lemma max_tokens_responsesRequest:
  "field ''max_tokens'' (body (responsesRequest u apiKey model systemPrompt messages)) = None"
  by (simp add: responsesRequest_def responsesPayload_def field_def)

lemma tools_claudeRequest:
  "field ''tools'' (body (claudeRequest apiKey model systemPrompt messages)) = None"
  by (simp add: claudeRequest_def field_def)

lemma tools_chatRequest:
  "field ''tools'' (body (chatRequest u provider apiKey model systemPrompt messages think)) = None"
  by (simp add: chatRequest_def chatPayload_def field_def split: option.split)

text \<open>
  Claim C7, as stated, on the responses adapter: the one request it sends has no
  \<^verbatim>\<open>max_tokens\<close> member.
\<close>

theorem max_tokens_counterexample:
  "map (field ''max_tokens'' \<circ> body)
     (snd (callResponsesAPIWithSearch Map.empty responsesSearched ''grok'' ''k'' ''m'' ''s'' []))
   = [None]"
  by (simp add: callResponsesAPIWithSearch_sent RESPONSES_API_ENDPOINTS_def
      max_tokens_responsesRequest)

text \<open>
  Claim C7, amended. Every request sent by the message adapter, by the plain
  chat-completions adapter and by the tool-call loop carries
  \<^verbatim>\<open>max_tokens\<close> with the value 1024; the request of the responses adapter
  (model, input, tools, store) carries no \<^verbatim>\<open>max_tokens\<close> at all.
\<close>

theorem max_tokens_fixed:
  "list_all (\<lambda>req. field ''max_tokens'' (body req) = Some (JNum 1024))
     (snd (callClaude cfetch apiKey model systemPrompt messages))
   \<and> list_all (\<lambda>req. field ''max_tokens'' (body req) = Some (JNum 1024))
       (snd (callOpenAICompatible env fetch provider apiKey model systemPrompt messages think))
   \<and> list_all (\<lambda>e. field ''max_tokens'' (body (fst e)) = Some (JNum 1024))
       (snd (callMoonshotWithSearch fetch apiKey model systemPrompt messages think))
   \<and> list_all (\<lambda>req. field ''max_tokens'' (body req) = None)
       (snd (callResponsesAPIWithSearch env rfetch provider apiKey model systemPrompt messages))"
proof -
  obtain r ex where E: "callMoonshotWithSearch fetch apiKey model systemPrompt messages think = (r, ex)"
    by (cases "callMoonshotWithSearch fetch apiKey model systemPrompt messages think")
  from callMoonshotWithSearch_summary [OF E]
  have "list_all (\<lambda>e. \<exists>msgs. fst e = moonshotRequest
          (js ''https://api.moonshot.ai/v1/chat/completions'') apiKey model think msgs) ex"
    by blast
  then have "list_all (\<lambda>e. field ''max_tokens'' (body (fst e)) = Some (JNum 1024)) ex"
    by (auto simp: list_all_iff max_tokens_moonshotRequest)
  then show ?thesis
    by (simp add: E callClaude_requests callOpenAICompatible_sent callResponsesAPIWithSearch_sent
        max_tokens_claudeRequest max_tokens_chatRequest max_tokens_responsesRequest
        split: option.split)
qed

theorem max_tokens_fixed_witness:
  "map (field ''max_tokens'' \<circ> body)
     (snd (callOpenAICompatible Map.empty answersAtOnce ''grok'' ''k'' ''m'' ''s'' [] None))
   = [Some (JNum 1024)]"
proof -
  have "length (snd (callOpenAICompatible Map.empty answersAtOnce ''grok'' ''k'' ''m'' ''s'' [] None)) = 1"
    by (simp add: callOpenAICompatible_sent OPENAI_COMPATIBLE_ENDPOINTS_def)
  then obtain req where
    "snd (callOpenAICompatible Map.empty answersAtOnce ''grok'' ''k'' ''m'' ''s'' [] None) = [req]"
    by (cases "snd (callOpenAICompatible Map.empty answersAtOnce ''grok'' ''k'' ''m'' ''s'' [] None)") auto
  with max_tokens_fixed [of claudeSilent "''k''" "''m''" "''s''" "[]" Map.empty answersAtOnce
      "''grok''" None responsesSearched]
  show ?thesis by simp
qed

section \<open>The plain path\<close>

lemma joinUrl_nonempty: "joinUrl b p \<noteq> []"
  by (simp add: joinUrl_def)

lemma generateResponse_sent_plain:
  assumes "\<not> allowWebSearch opts messages"
  shows "generateResponse env up provider apiKey model systemPrompt messages opts =
           (if provider = ''claude''
            then callClaude (messagesApi up) apiKey model systemPrompt messages
            else if provider = ''moonshot'' \<or> provider = ''grok'' \<or> provider = ''openai''
            then callOpenAICompatible env (chatApi up) provider apiKey model systemPrompt messages
                   (optThinking opts)
            else (Inl (Error (''Unknown AI provider: '' @ provider)), []))"
  using assms by (simp add: generateResponse_def)

section \<open>What the adapters return\<close>


text \<open>
  Claim C5, as stated, on the tool-call loop: the upstream omits the usage
  accounting, and the result carries both token counts, with the value 0.
\<close>

theorem token_counts_counterexample:
  "map (reportedPrompt \<circ> snd) (snd (callMoonshotWithSearch answersAtOnce ''k'' ''m'' ''s'' [] None))
     = [None]
   \<and> fst (callMoonshotWithSearch answersAtOnce ''k'' ''m'' ''s'' [] None)
       = Inr \<lparr>ai_text = ''Hi there.'', inputTokens = Some 0, outputTokens = Some 0,
               webSearchQueries = None\<rparr>"
  by (simp add: callMoonshotWithSearch_unfold toolLoop.simps MAX_TOOL_ITERATIONS_def toolRound_def
      answersAtOnce_def ok_def initialState_def Let_def stopChoice_def loopResult_def
      promptTokens_def completionTokens_def reportedPrompt_def received_def)

text \<open>
  Claim C5, amended. On the message adapter, the plain chat-completions adapter
  and the responses adapter, both token counts are absent when the response has
  no usage accounting. The tool-call loop always returns both counts: each is
  the sum, over all rounds of the call, of the usage field the rounds reported,
  a round without that field adding nothing.
\<close>

theorem token_counts:
  "(fst (callClaude cfetch apiKey model systemPrompt messages) = Inr r_claude
      \<and> received (cfetch 0 (claudeRequest apiKey model systemPrompt messages)) = Some d_claude
      \<and> claude_usage d_claude = None
     \<longrightarrow> inputTokens r_claude = None \<and> outputTokens r_claude = None)
   \<and> (callOpenAICompatible env fetch provider apiKey model systemPrompt messages think
         = (Inr r_chat, reqs_chat)
       \<and> received (fetch 0 (hd reqs_chat)) = Some d_chat \<and> usage d_chat = None
     \<longrightarrow> inputTokens r_chat = None \<and> outputTokens r_chat = None)
   \<and> (callResponsesAPIWithSearch env rfetch provider apiKey model systemPrompt messages
         = (Inr r_resp, reqs_resp)
       \<and> received (rfetch 0 (hd reqs_resp)) = Some d_resp \<and> resp_usage d_resp = None
     \<longrightarrow> inputTokens r_resp = None \<and> outputTokens r_resp = None)
   \<and> (callMoonshotWithSearch fetch apiKey model systemPrompt messages think = (Inr r_loop, ex)
     \<longrightarrow> inputTokens r_loop = Some (sum_list (List.map_filter (\<lambda>e. reportedPrompt (snd e)) ex))
         \<and> outputTokens r_loop = Some (sum_list (List.map_filter (\<lambda>e. reportedCompletion (snd e)) ex)))"
proof -
  have 1: "inputTokens r_claude = None \<and> outputTokens r_claude = None"
    if "fst (callClaude cfetch apiKey model systemPrompt messages) = Inr r_claude"
      and "received (cfetch 0 (claudeRequest apiKey model systemPrompt messages)) = Some d_claude"
      and "claude_usage d_claude = None"
    using callClaude_result [OF that(1)] that(2,3) by auto
  have 2: "inputTokens r_chat = None \<and> outputTokens r_chat = None"
    if "callOpenAICompatible env fetch provider apiKey model systemPrompt messages think
          = (Inr r_chat, reqs_chat)"
      and "received (fetch 0 (hd reqs_chat)) = Some d_chat" and "usage d_chat = None"
    using callOpenAICompatible_result [OF that(1)] that(2,3) by auto
  have 3: "inputTokens r_loop = Some (sum_list (List.map_filter (\<lambda>e. reportedPrompt (snd e)) ex))
         \<and> outputTokens r_loop = Some (sum_list (List.map_filter (\<lambda>e. reportedCompletion (snd e)) ex))"
    if "callMoonshotWithSearch fetch apiKey model systemPrompt messages think = (Inr r_loop, ex)"
    using callMoonshotWithSearch_summary [OF that] by (auto simp: resultOf_def loopInv_def)
  have 4: "inputTokens r_resp = None \<and> outputTokens r_resp = None"
    if "callResponsesAPIWithSearch env rfetch provider apiKey model systemPrompt messages
          = (Inr r_resp, reqs_resp)"
      and "received (rfetch 0 (hd reqs_resp)) = Some d_resp" and "resp_usage d_resp = None"
    using callResponsesAPIWithSearch_result [OF that(1)] that(2,3) by auto
  from 1 2 3 4 show ?thesis by blast
qed

text \<open>
  Claim C6. The message adapter and the plain adapter never set the search
  queries. The tool-call loop sets them exactly when the rounds answered with
  tool calls carried at least one call, and then to the argument strings of
  those calls, one per call, in order across the rounds. The responses adapter
  sets them exactly when the output has at least one web-search item, and then
  to the single string \<^verbatim>\<open>web_search (N call(s))\<close> with N the number of those
  items.
\<close>

theorem search_queries:
  "(\<forall>r. fst (callClaude cfetch apiKey model systemPrompt messages) = Inr r
        \<longrightarrow> webSearchQueries r = None)
   \<and> (\<forall>r. fst (callOpenAICompatible env fetch provider apiKey model systemPrompt messages think)
            = Inr r \<longrightarrow> webSearchQueries r = None)
   \<and> (callMoonshotWithSearch fetch apiKey model systemPrompt messages think = (Inr r_loop, ex)
     \<longrightarrow> webSearchQueries r_loop =
           (if concat (List.map_filter (\<lambda>e. requestedCalls (snd e)) ex) = [] then None
            else Some (map fn_arguments
                         (concat (List.map_filter (\<lambda>e. requestedCalls (snd e)) ex)))))
   \<and> (callResponsesAPIWithSearch env rfetch provider apiKey model systemPrompt messages
         = (Inr r_resp, reqs_resp)
       \<and> received (rfetch 0 (hd reqs_resp)) = Some d_resp
     \<longrightarrow> webSearchQueries r_resp =
           (if count_list (resp_output d_resp) WebSearchOutput = 0 then None
            else Some [''web_search ('' @ digits (count_list (resp_output d_resp) WebSearchOutput)
                       @ '' call(s))'']))"
proof -
  have 1: "webSearchQueries r = None"
    if "fst (callClaude cfetch apiKey model systemPrompt messages) = Inr r" for r
    using callClaude_result [OF that] by auto
  have 2: "webSearchQueries r = None"
    if "fst (callOpenAICompatible env fetch provider apiKey model systemPrompt messages think)
          = Inr r" for r
  proof -
    have "callOpenAICompatible env fetch provider apiKey model systemPrompt messages think
            = (Inr r, snd (callOpenAICompatible env fetch provider apiKey model systemPrompt
                             messages think))"
      using that by (metis prod.collapse)
    from callOpenAICompatible_result [OF this] show ?thesis by auto
  qed
  have 3: "webSearchQueries r_loop =
           (if concat (List.map_filter (\<lambda>e. requestedCalls (snd e)) ex) = [] then None
            else Some (map fn_arguments
                         (concat (List.map_filter (\<lambda>e. requestedCalls (snd e)) ex))))"
    if "callMoonshotWithSearch fetch apiKey model systemPrompt messages think = (Inr r_loop, ex)"
    using callMoonshotWithSearch_summary [OF that] by (auto simp: resultOf_def loopInv_def)
  have 4: "webSearchQueries r_resp =
           (if count_list (resp_output d_resp) WebSearchOutput = 0 then None
            else Some [''web_search ('' @ digits (count_list (resp_output d_resp) WebSearchOutput)
                       @ '' call(s))''])"
    if "callResponsesAPIWithSearch env rfetch provider apiKey model systemPrompt messages
          = (Inr r_resp, reqs_resp)"
      and "received (rfetch 0 (hd reqs_resp)) = Some d_resp"
    using callResponsesAPIWithSearch_result [OF that(1)] that(2)
      filter_isWebSearchCall [of "resp_output d_resp"]
    by auto
  from 1 2 3 4 show ?thesis by blast
qed

lemmas run_loop =
  callMoonshotWithSearch_unfold toolLoop.simps MAX_TOOL_ITERATIONS_def toolRound_def ok_def
  initialState_def Let_def stopChoice_def searchChoice_def searchCall_def loopResult_def
  promptTokens_def completionTokens_def


lemma claudeSilent_run:
  "fst (callClaude claudeSilent ''k'' ''m'' ''s'' [])
     = Inr \<lparr>ai_text = [], inputTokens = None, outputTokens = None, webSearchQueries = None\<rparr>"
  "received (claudeSilent 0 (claudeRequest ''k'' ''m'' ''s'' []))
     = Some \<lparr>claude_content = [], claude_usage = None\<rparr>"
  by (simp_all add: callClaude_def claudeSilent_def Let_def ok_def received_def)

lemma emptyChoices_run:
  "callOpenAICompatible Map.empty emptyChoices ''grok'' ''k'' ''m'' ''s'' [] None
     = (Inr \<lparr>ai_text = [], inputTokens = None, outputTokens = None, webSearchQueries = None\<rparr>,
        [chatRequest (js ''https://api.x.ai/v1/chat/completions'') ''grok'' ''k'' ''m'' ''s'' [] None])"
  "received (emptyChoices 0 req) = Some \<lparr>choices = [], usage = None\<rparr>"
  by (simp_all add: callOpenAICompatible_def OPENAI_COMPATIBLE_ENDPOINTS_def emptyChoices_def
      Let_def ok_def received_def chatRequest_def)

lemma responsesSilent_run:
  "callResponsesAPIWithSearch Map.empty responsesSilent ''grok'' ''k'' ''m'' ''s'' []
     = (Inr \<lparr>ai_text = [], inputTokens = None, outputTokens = None, webSearchQueries = None\<rparr>,
        [responsesRequest (js ''https://api.x.ai/v1/responses'') ''k'' ''m'' ''s'' []])"
  "received (responsesSilent 0 req)
     = Some \<lparr>resp_id = ''resp_test'', resp_output = [MessageOutput []], resp_usage = None\<rparr>"
  by (simp_all add: callResponsesAPIWithSearch_def RESPONSES_API_ENDPOINTS_def responsesSilent_def
      Let_def ok_def received_def responsesRequest_def responsesText_def isMessage_def
      isWebSearchCall_def)

lemma responsesSearched_run:
  "callResponsesAPIWithSearch Map.empty responsesSearched ''grok'' ''k'' ''m'' ''s'' []
     = (Inr \<lparr>ai_text = ''Found it.'', inputTokens = None, outputTokens = None,
              webSearchQueries = Some [''web_search (2 call(s))'']\<rparr>,
        [responsesRequest (js ''https://api.x.ai/v1/responses'') ''k'' ''m'' ''s'' []])"
  "received (responsesSearched 0 req)
     = Some \<lparr>resp_id = ''resp_test'',
             resp_output = [WebSearchOutput, WebSearchOutput, MessageOutput [''Found it.'']],
             resp_usage = None\<rparr>"
  by (simp_all add: callResponsesAPIWithSearch_def RESPONSES_API_ENDPOINTS_def
      responsesSearched_def Let_def ok_def received_def responsesRequest_def responsesText_def
      isMessage_def isWebSearchCall_def digits.simps)


lemma searchesOnce_run:
  "fst (callMoonshotWithSearch searchesOnce ''k'' ''m'' ''s'' [] None)
     = Inr \<lparr>ai_text = ''Found it.'', inputTokens = Some 12, outputTokens = Some 5,
             webSearchQueries = Some [''rust news'']\<rparr>"
  "length (snd (callMoonshotWithSearch searchesOnce ''k'' ''m'' ''s'' [] None)) = 2"
  by (simp_all add: run_loop searchesOnce_def)


theorem token_counts_witness:
  "fst (callMoonshotWithSearch searchesOnce ''k'' ''m'' ''s'' [] None)
     = Inr \<lparr>ai_text = ''Found it.'', inputTokens = Some 12, outputTokens = Some 5,
             webSearchQueries = Some [''rust news'']\<rparr>
   \<and> sum_list (List.map_filter (\<lambda>e. reportedPrompt (snd e))
                 (snd (callMoonshotWithSearch searchesOnce ''k'' ''m'' ''s'' [] None))) = 12
   \<and> sum_list (List.map_filter (\<lambda>e. reportedCompletion (snd e))
                 (snd (callMoonshotWithSearch searchesOnce ''k'' ''m'' ''s'' [] None))) = 5
   \<and> inputTokens \<lparr>ai_text = [], inputTokens = None, outputTokens = None,
                    webSearchQueries = None\<rparr> = None"
proof -
  let ?plain = "\<lparr>ai_text = [], inputTokens = None, outputTokens = None, webSearchQueries = None\<rparr>"
  let ?found = "\<lparr>ai_text = ''Found it.'', inputTokens = Some 12, outputTokens = Some 5,
                 webSearchQueries = Some [''rust news'']\<rparr>"
  let ?ex = "snd (callMoonshotWithSearch searchesOnce ''k'' ''m'' ''s'' [] None)"
  have l: "callMoonshotWithSearch searchesOnce ''k'' ''m'' ''s'' [] None = (Inr ?found, ?ex)"
    using searchesOnce_run(1) by (metis prod.collapse)
  note T = token_counts [where cfetch = claudeSilent and apiKey = "''k''" and model = "''m''"
      and systemPrompt = "''s''" and messages = "[]" and r_claude = ?plain
      and d_claude = "\<lparr>claude_content = [], claude_usage = None\<rparr>"
      and env = Map.empty and provider = "''grok''" and think = None and r_chat = ?plain
      and reqs_chat = "[chatRequest (js ''https://api.x.ai/v1/chat/completions'') ''grok'' ''k'' ''m'' ''s'' [] None]"
      and d_chat = "\<lparr>choices = [], usage = None\<rparr>"
      and rfetch = responsesSilent and r_resp = ?plain
      and reqs_resp = "[responsesRequest (js ''https://api.x.ai/v1/responses'') ''k'' ''m'' ''s'' []]"
      and d_resp = "\<lparr>resp_id = ''resp_test'', resp_output = [MessageOutput []], resp_usage = None\<rparr>"]
  from T [where fetch = emptyChoices and r_loop = ?found and ex = ?ex]
    claudeSilent_run emptyChoices_run responsesSilent_run
  have 1: "inputTokens ?plain = None" by simp
  from T [where fetch = searchesOnce and r_loop = ?found and ex = ?ex] l
  have 3: "inputTokens ?found = Some (sum_list (List.map_filter (\<lambda>e. reportedPrompt (snd e)) ?ex))
         \<and> outputTokens ?found = Some (sum_list (List.map_filter (\<lambda>e. reportedCompletion (snd e)) ?ex))"
    by blast
  from 1 3 searchesOnce_run(1) show ?thesis by simp
qed

theorem search_queries_witness:
  "fst (callMoonshotWithSearch searchesOnce ''k'' ''m'' ''s'' [] None)
     = Inr \<lparr>ai_text = ''Found it.'', inputTokens = Some 12, outputTokens = Some 5,
             webSearchQueries = Some [''rust news'']\<rparr>
   \<and> map fn_arguments
         (concat (List.map_filter (\<lambda>e. requestedCalls (snd e))
                    (snd (callMoonshotWithSearch searchesOnce ''k'' ''m'' ''s'' [] None))))
       = [''rust news'']
   \<and> fst (callResponsesAPIWithSearch Map.empty responsesSearched ''grok'' ''k'' ''m'' ''s'' [])
       = Inr \<lparr>ai_text = ''Found it.'', inputTokens = None, outputTokens = None,
               webSearchQueries = Some [''web_search (2 call(s))'']\<rparr>
   \<and> ''web_search (''
        @ digits (count_list [WebSearchOutput, WebSearchOutput, MessageOutput [''Found it.'']]
                    WebSearchOutput)
        @ '' call(s))'' = ''web_search (2 call(s))''"
proof -
  let ?found = "\<lparr>ai_text = ''Found it.'', inputTokens = Some 12, outputTokens = Some 5,
                 webSearchQueries = Some [''rust news'']\<rparr>"
  let ?searched = "\<lparr>ai_text = ''Found it.'', inputTokens = None, outputTokens = None,
               webSearchQueries = Some [''web_search (2 call(s))'']\<rparr>"
  let ?ex = "snd (callMoonshotWithSearch searchesOnce ''k'' ''m'' ''s'' [] None)"
  let ?d = "\<lparr>resp_id = ''resp_test'',
             resp_output = [WebSearchOutput, WebSearchOutput, MessageOutput [''Found it.'']],
             resp_usage = None\<rparr>"
  have l: "callMoonshotWithSearch searchesOnce ''k'' ''m'' ''s'' [] None = (Inr ?found, ?ex)"
    using searchesOnce_run(1) by (metis prod.collapse)
  note T = search_queries [where fetch = searchesOnce and apiKey = "''k''" and model = "''m''"
      and systemPrompt = "''s''" and messages = "[]" and think = None and r_loop = ?found and ex = ?ex
      and env = Map.empty and rfetch = responsesSearched and provider = "''grok''"
      and r_resp = ?searched
      and reqs_resp = "[responsesRequest (js ''https://api.x.ai/v1/responses'') ''k'' ''m'' ''s'' []]"
      and d_resp = ?d]
  from T l have 3: "webSearchQueries ?found =
           (if concat (List.map_filter (\<lambda>e. requestedCalls (snd e)) ?ex) = [] then None
            else Some (map fn_arguments
                         (concat (List.map_filter (\<lambda>e. requestedCalls (snd e)) ?ex))))"
    by blast
  from T responsesSearched_run have 4: "webSearchQueries ?searched =
           (if count_list (resp_output ?d) WebSearchOutput = 0 then None
            else Some [''web_search ('' @ digits (count_list (resp_output ?d) WebSearchOutput)
                       @ '' call(s))''])"
    by simp
  from 3 have "map fn_arguments (concat (List.map_filter (\<lambda>e. requestedCalls (snd e)) ?ex))
                 = [''rust news'']"
    by (simp split: if_splits)
  moreover from 4 have "''web_search ('' @ digits (count_list (resp_output ?d) WebSearchOutput)
                       @ '' call(s))'' = ''web_search (2 call(s))''"
    by (simp split: if_splits)
  ultimately show ?thesis
    using searchesOnce_run(1) responsesSearched_run(1) by simp
qed

section \<open>The environment\<close>

text \<open>
  Claim C8, as stated, for the provider \<^verbatim>\<open>openai\<close>: the same arguments give a
  request to a different URL once \<^verbatim>\<open>OPENAI_BASE_URL\<close> is set.
\<close>

theorem ambient_configuration_counterexample:
  "map url (snd (generateResponse Map.empty exampleUpstream ''openai'' ''k'' ''m'' ''s'' [] None))
     = [js ''https://api.openai.com/v1/chat/completions'']
   \<and> map url (snd (generateResponse localEnv exampleUpstream ''openai'' ''k'' ''m'' ''s'' [] None))
     = [js ''http://localhost:8080/v1/chat/completions'']"
  by (simp add: generateResponse_def allowWebSearch_def callOpenAICompatible_sent
      getOpenAIChatCompletionsUrl_def getOpenAIBaseUrl_def joinUrl_def normalizeBaseUrl_def
      trim_def isSpace_def DEFAULT_OPENAI_BASE_URL_def localEnv_def chatRequest_def js_def)

lemma getOpenAIBaseUrl_cong:
  "env1 ''OPENAI_BASE_URL'' = env2 ''OPENAI_BASE_URL'' \<Longrightarrow> getOpenAIBaseUrl env1 = getOpenAIBaseUrl env2"
  by (simp add: getOpenAIBaseUrl_def)

lemma callOpenAICompatible_env:
  assumes "provider \<noteq> ''openai'' \<or> env1 ''OPENAI_BASE_URL'' = env2 ''OPENAI_BASE_URL''"
  shows "callOpenAICompatible env1 fetch provider apiKey model systemPrompt messages think
           = callOpenAICompatible env2 fetch provider apiKey model systemPrompt messages think"
  using assms getOpenAIBaseUrl_cong [of env1 env2]
  by (auto simp: callOpenAICompatible_def getOpenAIChatCompletionsUrl_def)

lemma callResponsesAPIWithSearch_env:
  assumes "provider \<noteq> ''openai'' \<or> env1 ''OPENAI_BASE_URL'' = env2 ''OPENAI_BASE_URL''"
  shows "callResponsesAPIWithSearch env1 fetch provider apiKey model systemPrompt messages
           = callResponsesAPIWithSearch env2 fetch provider apiKey model systemPrompt messages"
  using assms getOpenAIBaseUrl_cong [of env1 env2]
  by (auto simp: callResponsesAPIWithSearch_def getOpenAIResponsesUrl_def)

lemma callOpenAICompatible_body:
  "map body (snd (callOpenAICompatible env1 fetch ''openai'' apiKey model systemPrompt messages think))
     = map body (snd (callOpenAICompatible env2 fetch ''openai'' apiKey model systemPrompt messages think))"
  "map headers (snd (callOpenAICompatible env1 fetch ''openai'' apiKey model systemPrompt messages think))
     = map headers (snd (callOpenAICompatible env2 fetch ''openai'' apiKey model systemPrompt messages think))"
  by (simp_all add: callOpenAICompatible_sent getOpenAIChatCompletionsUrl_def joinUrl_nonempty
      chatRequest_def)

lemma callResponsesAPIWithSearch_body:
  "map body (snd (callResponsesAPIWithSearch env1 fetch ''openai'' apiKey model systemPrompt messages))
     = map body (snd (callResponsesAPIWithSearch env2 fetch ''openai'' apiKey model systemPrompt messages))"
  "map headers (snd (callResponsesAPIWithSearch env1 fetch ''openai'' apiKey model systemPrompt messages))
     = map headers (snd (callResponsesAPIWithSearch env2 fetch ''openai'' apiKey model systemPrompt messages))"
  by (simp_all add: callResponsesAPIWithSearch_sent getOpenAIResponsesUrl_def joinUrl_nonempty
      responsesRequest_def)

text \<open>What \<open>trim\<close> returns: the value without the white space at its two ends.\<close>

lemma trim_eq_Nil: "trim v = [] \<longleftrightarrow> list_all isSpace v"
proof
  assume "list_all isSpace v"
  then have "dropWhile isSpace v = []"
    by (induction v) simp_all
  then show "trim v = []"
    by (simp add: trim_def del: dropWhile_eq_Nil_conv)
next
  assume t: "trim v = []"
  show "list_all isSpace v"
  proof (rule ccontr)
    assume "\<not> list_all isSpace v"
    then have ne: "dropWhile isSpace v \<noteq> []"
      unfolding list_all_iff dropWhile_eq_Nil_conv .
    then have "\<not> isSpace (hd (dropWhile isSpace v))"
      by (rule hd_dropWhile)
    moreover have "hd (dropWhile isSpace v) \<in> set (rev (dropWhile isSpace v))"
      using ne by simp
    ultimately have "dropWhile isSpace (rev (dropWhile isSpace v)) \<noteq> []"
      by (auto simp: dropWhile_eq_Nil_conv)
    with t show False
      by (simp add: trim_def)
  qed
qed

lemma trim_ends:
  "\<exists>a b. v = a @ trim v @ b \<and> list_all isSpace a \<and> list_all isSpace b"
proof -
  let ?w = "dropWhile isSpace v"
  have 1: "v = takeWhile isSpace v @ ?w"
    by simp
  have 2: "rev ?w = takeWhile isSpace (rev ?w) @ dropWhile isSpace (rev ?w)"
    by simp
  have "?w = rev (rev ?w)" by simp
  also have "\<dots> = rev (dropWhile isSpace (rev ?w)) @ rev (takeWhile isSpace (rev ?w))"
    by (subst 2) (simp only: rev_append)
  finally have 3: "?w = trim v @ rev (takeWhile isSpace (rev ?w))"
    by (simp add: trim_def)
  have "v = takeWhile isSpace v @ trim v @ rev (takeWhile isSpace (rev ?w))"
    using 1 3 by metis
  moreover have "list_all isSpace (takeWhile isSpace v)"
    by (auto simp: list_all_iff dest: set_takeWhileD)
  moreover have "list_all isSpace (rev (takeWhile isSpace (rev ?w)))"
    by (auto simp: list_all_iff dest: set_takeWhileD)
  ultimately show ?thesis by blast
qed

lemma trim_trimmed:
  assumes "trim v \<noteq> []"
  shows "\<not> isSpace (hd (trim v)) \<and> \<not> isSpace (last (trim v))"
proof -
  let ?w = "dropWhile isSpace v"
  let ?r = "dropWhile isSpace (rev ?w)"
  from assms have r: "?r \<noteq> []" by (simp add: trim_def)
  then have l: "\<not> isSpace (hd ?r)" by (rule hd_dropWhile)
  have lt: "last (trim v) = hd ?r"
    using r by (simp add: trim_def last_rev)
  have w: "?w \<noteq> []"
  proof
    assume "?w = []"
    with r show False by simp
  qed
  then have hw: "\<not> isSpace (hd ?w)" by (rule hd_dropWhile)
  have "last (takeWhile isSpace (rev ?w) @ ?r) = last ?r"
    using r by (rule last_appendR)
  then have "last (rev ?w) = last ?r" by simp
  then have "hd ?w = last ?r"
    using w by (simp add: last_rev)
  moreover have "hd (trim v) = last ?r"
    using r by (simp add: trim_def hd_rev)
  ultimately show ?thesis
    using hw l lt by simp
qed

lemma normalizeBaseUrl_idem: "normalizeBaseUrl (normalizeBaseUrl v) = normalizeBaseUrl v"
  by (simp add: normalizeBaseUrl_def)

lemma normalizeBaseUrl_default:
  "normalizeBaseUrl (js ''https://api.openai.com/v1'') = js ''https://api.openai.com/v1''"
  by (simp add: normalizeBaseUrl_def js_def)

lemma getOpenAIBaseUrl_cases:
  "getOpenAIBaseUrl env =
     (case env ''OPENAI_BASE_URL'' of
        None \<Rightarrow> js ''https://api.openai.com/v1''
      | Some v \<Rightarrow> if list_all isSpace v then js ''https://api.openai.com/v1''
                  else normalizeBaseUrl (trim v))"
  by (auto simp: getOpenAIBaseUrl_def DEFAULT_OPENAI_BASE_URL_def trim_eq_Nil split: option.split)

lemma normalizeBaseUrl_getOpenAIBaseUrl:
  "normalizeBaseUrl (getOpenAIBaseUrl env) = getOpenAIBaseUrl env"
  by (simp add: getOpenAIBaseUrl_cases normalizeBaseUrl_idem normalizeBaseUrl_default
      split: option.split)

lemma openai_urls:
  "getOpenAIChatCompletionsUrl env = getOpenAIBaseUrl env @ js ''/chat/completions''"
  "getOpenAIResponsesUrl env = getOpenAIBaseUrl env @ js ''/responses''"
  by (simp_all add: getOpenAIChatCompletionsUrl_def getOpenAIResponsesUrl_def joinUrl_def
      normalizeBaseUrl_getOpenAIBaseUrl js_def)

lemma generateResponse_openai_urls:
  "map url (snd (generateResponse env up ''openai'' apiKey model systemPrompt messages opts))
     = [getOpenAIBaseUrl env
        @ (if allowWebSearch opts messages then js ''/responses'' else js ''/chat/completions'')]"
  by (simp add: generateResponse_def callOpenAICompatible_sent callResponsesAPIWithSearch_sent
      openai_urls chatRequest_def responsesRequest_def)

text \<open>
  Claim C8, amended. For every provider other than \<^verbatim>\<open>openai\<close> the outcome of
  the facade, requests included, does not depend on the environment. For
  \<^verbatim>\<open>openai\<close> the one request goes to the base URL followed by
  \<^verbatim>\<open>/chat/completions\<close>, or by \<^verbatim>\<open>/responses\<close> when web search is allowed; the
  base is \<^verbatim>\<open>https://api.openai.com/v1\<close> when \<^verbatim>\<open>OPENAI_BASE_URL\<close> is unset, empty
  or made of white space only, and otherwise its value with the white space
  around it and the trailing slashes removed. No other variable is read, and
  bodies and headers of the requests never depend on the environment.
\<close>

theorem ambient_configuration:
  "(provider \<noteq> ''openai'' \<or> env1 ''OPENAI_BASE_URL'' = env2 ''OPENAI_BASE_URL''
      \<longrightarrow> generateResponse env1 up provider apiKey model systemPrompt messages opts
          = generateResponse env2 up provider apiKey model systemPrompt messages opts)
   \<and> map body (snd (generateResponse env1 up provider apiKey model systemPrompt messages opts))
       = map body (snd (generateResponse env2 up provider apiKey model systemPrompt messages opts))
   \<and> map headers (snd (generateResponse env1 up provider apiKey model systemPrompt messages opts))
       = map headers (snd (generateResponse env2 up provider apiKey model systemPrompt messages opts))
   \<and> map url (snd (generateResponse env1 up ''openai'' apiKey model systemPrompt messages opts))
       = [(case env1 ''OPENAI_BASE_URL'' of
             None \<Rightarrow> js ''https://api.openai.com/v1''
           | Some v \<Rightarrow> if list_all isSpace v then js ''https://api.openai.com/v1''
                       else normalizeBaseUrl (trim v))
          @ (if allowWebSearch opts messages then js ''/responses''
             else js ''/chat/completions'')]"
proof -
  have same: "generateResponse env1 up provider apiKey model systemPrompt messages opts
          = generateResponse env2 up provider apiKey model systemPrompt messages opts"
    if "provider \<noteq> ''openai'' \<or> env1 ''OPENAI_BASE_URL'' = env2 ''OPENAI_BASE_URL''"
    unfolding generateResponse_def
    using callOpenAICompatible_env [where ?env1.0 = env1 and ?env2.0 = env2
        and provider = provider and fetch = "chatApi up", OF that]
      callResponsesAPIWithSearch_env [where ?env1.0 = env1 and ?env2.0 = env2
        and provider = provider and fetch = "responsesApi up", OF that]
    by auto
  have urls: "map url (snd (generateResponse env1 up ''openai'' apiKey model systemPrompt messages opts))
       = [(case env1 ''OPENAI_BASE_URL'' of
             None \<Rightarrow> js ''https://api.openai.com/v1''
           | Some v \<Rightarrow> if list_all isSpace v then js ''https://api.openai.com/v1''
                       else normalizeBaseUrl (trim v))
          @ (if allowWebSearch opts messages then js ''/responses''
             else js ''/chat/completions'')]"
    unfolding generateResponse_openai_urls getOpenAIBaseUrl_cases ..
  show ?thesis
  proof (cases "provider = ''openai''")
    case False
    with same urls show ?thesis by simp
  next
    case True
    then show ?thesis
      using same urls
      by (simp add: generateResponse_def callOpenAICompatible_body
          callResponsesAPIWithSearch_body)
  qed
qed

theorem ambient_configuration_witness:
  "generateResponse Map.empty exampleUpstream ''grok'' ''k'' ''m'' ''s'' [] None
     = generateResponse localEnv exampleUpstream ''grok'' ''k'' ''m'' ''s'' [] None
   \<and> map url (snd (generateResponse Map.empty exampleUpstream ''openai'' ''k'' ''m'' ''s'' [] None))
       = [js ''https://api.openai.com/v1/chat/completions'']
   \<and> map url (snd (generateResponse blankEnv exampleUpstream ''openai'' ''k'' ''m'' ''s'' [] None))
       = [js ''https://api.openai.com/v1/chat/completions'']
   \<and> map url (snd (generateResponse paddedEnv exampleUpstream ''openai'' ''k'' ''m'' ''s'' []
                      (Some searchOn)))
       = [js ''http://localhost:8080/v1/responses'']"
proof -
  have g: "''grok'' \<noteq> ''openai'' \<or> Map.empty ''OPENAI_BASE_URL'' = localEnv ''OPENAI_BASE_URL''"
    by simp
  have off: "\<not> allowWebSearch None []" and on: "allowWebSearch (Some searchOn) []"
    by (simp_all add: allowWebSearch_def searchOn_def hasImage_def)
  have b: "blankEnv ''OPENAI_BASE_URL'' = Some [0x00A0, 0x0020, 0xFEFF, 0x2028, 0x0009]"
    and bl: "list_all isSpace [0x00A0, 0x0020, 0xFEFF, 0x2028, 0x0009]"
    by (simp_all add: blankEnv_def isSpace_def)
  have p: "paddedEnv ''OPENAI_BASE_URL''
             = Some ([0x00A0] @ js '' http://localhost:8080/v1// '' @ [0x2029])"
    and pl: "\<not> list_all isSpace ([0x00A0] @ js '' http://localhost:8080/v1// '' @ [0x2029])"
    and pt: "normalizeBaseUrl (trim ([0x00A0] @ js '' http://localhost:8080/v1// '' @ [0x2029]))
               = js ''http://localhost:8080/v1''"
    by (simp_all add: paddedEnv_def isSpace_def js_def trim_def normalizeBaseUrl_def)
  from ambient_configuration [of "''grok''" Map.empty localEnv exampleUpstream "''k''" "''m''" "''s''"
      "[]" None] g
  have 1: "generateResponse Map.empty exampleUpstream ''grok'' ''k'' ''m'' ''s'' [] None
     = generateResponse localEnv exampleUpstream ''grok'' ''k'' ''m'' ''s'' [] None"
    by blast
  from ambient_configuration [of "''openai''" Map.empty Map.empty exampleUpstream "''k''" "''m''"
      "''s''" "[]" None] off
  have 2: "map url (snd (generateResponse Map.empty exampleUpstream ''openai'' ''k'' ''m'' ''s'' [] None))
       = [js ''https://api.openai.com/v1/chat/completions'']"
    by (simp add: js_def)
  from ambient_configuration [of "''openai''" blankEnv blankEnv exampleUpstream "''k''" "''m''"
      "''s''" "[]" None] off b bl
  have 3: "map url (snd (generateResponse blankEnv exampleUpstream ''openai'' ''k'' ''m'' ''s'' [] None))
       = [js ''https://api.openai.com/v1/chat/completions'']"
    by (simp add: js_def)
  from ambient_configuration [of "''openai''" paddedEnv paddedEnv exampleUpstream "''k''" "''m''"
      "''s''" "[]" "Some searchOn"] on p pl pt
  have 4: "map url (snd (generateResponse paddedEnv exampleUpstream ''openai'' ''k'' ''m'' ''s'' []
                      (Some searchOn)))
       = [js ''http://localhost:8080/v1/responses'']"
    by (simp add: js_def)
  from 1 2 3 4 show ?thesis by blast
qed

section \<open>Routing of web search\<close>

lemma tools_moonshotRequest:
  "field ''tools'' (body (moonshotRequest u apiKey model think msgs)) = Some moonshotTools"
  by (simp add: moonshotRequest_def field_def)

lemma tools_responsesRequest:
  "field ''tools'' (body (responsesRequest u apiKey model systemPrompt messages))
     = Some (JArr [JObj [(''type'', JStr ''web_search'')]])"
  by (simp add: responsesRequest_def responsesPayload_def field_def)

lemma allowWebSearch_iff:
  "allowWebSearch opts messages \<longleftrightarrow>
     (\<exists>os. opts = Some os \<and> webSearch os = Some True) \<and> \<not> hasImage messages"
  by (cases opts) (simp_all add: allowWebSearch_def)

lemma generateResponse_sent_search:
  assumes "allowWebSearch opts messages"
  shows "generateResponse env up provider apiKey model systemPrompt messages opts =
           (if provider = ''claude''
            then callClaude (messagesApi up) apiKey model systemPrompt messages
            else if provider = ''moonshot''
            then (case callMoonshotWithSearch (chatApi up) apiKey model systemPrompt messages
                         (optThinking opts) of
                    (r, ex) \<Rightarrow> (r, map fst ex))
            else if provider = ''grok'' \<or> provider = ''openai''
            then callResponsesAPIWithSearch env (responsesApi up) provider apiKey model
                   systemPrompt messages
            else (Inl (Error (''Unknown AI provider: '' @ provider)), []))"
  using assms by (simp add: generateResponse_def)

lemma callMoonshotWithSearch_tools:
  "list_all (\<lambda>req. field ''tools'' (body req) \<noteq> None)
     (map fst (snd (callMoonshotWithSearch fetch apiKey model systemPrompt messages think)))"
proof -
  obtain r ex where E: "callMoonshotWithSearch fetch apiKey model systemPrompt messages think = (r, ex)"
    by (cases "callMoonshotWithSearch fetch apiKey model systemPrompt messages think")
  from callMoonshotWithSearch_summary [OF E]
  have "list_all (\<lambda>e. \<exists>msgs. fst e = moonshotRequest
          (js ''https://api.moonshot.ai/v1/chat/completions'') apiKey model think msgs) ex"
    by blast
  then show ?thesis
    unfolding E by (auto simp: list_all_iff tools_moonshotRequest)
qed

text \<open>
  Claim C1. For a conversation without any image part, web search is allowed
  exactly when the options are given and their \<^verbatim>\<open>webSearch\<close> is true. For a
  conversation with at least one image part, web search is never allowed: the
  facade then runs the message adapter or the plain chat-completions adapter,
  whatever \<^verbatim>\<open>webSearch\<close> says, and no request it sends carries a tool list, so
  neither the tool-call loop nor the responses adapter has been invoked. In
  general the facade runs the tool-call loop (for \<^verbatim>\<open>moonshot\<close>) or the
  responses adapter (for \<^verbatim>\<open>grok\<close> and \<^verbatim>\<open>openai\<close>) exactly when
  \<^verbatim>\<open>webSearch\<close> is true and no message has an image part, and then every request
  it sends carries a tool list; otherwise it runs the plain adapter.
\<close>

theorem web_search_routing:
  "(\<not> (\<exists>m \<in> set messages. \<exists>ps. content m = Parts ps \<and> (\<exists>mt d. ImagePart mt d \<in> set ps))
      \<longrightarrow> (allowWebSearch opts messages \<longleftrightarrow> (\<exists>os. opts = Some os \<and> webSearch os = Some True)))
   \<and> ((\<exists>m \<in> set messages. \<exists>ps. content m = Parts ps \<and> (\<exists>mt d. ImagePart mt d \<in> set ps))
      \<longrightarrow> \<not> allowWebSearch opts messages
          \<and> generateResponse env up provider apiKey model systemPrompt messages opts =
              (if provider = ''claude''
               then callClaude (messagesApi up) apiKey model systemPrompt messages
               else if provider = ''moonshot'' \<or> provider = ''grok'' \<or> provider = ''openai''
               then callOpenAICompatible env (chatApi up) provider apiKey model systemPrompt
                      messages (optThinking opts)
               else (Inl (Error (''Unknown AI provider: '' @ provider)), []))
          \<and> list_all (\<lambda>req. field ''tools'' (body req) = None)
               (snd (generateResponse env up provider apiKey model systemPrompt messages opts)))
   \<and> generateResponse env up provider apiKey model systemPrompt messages opts =
       (if provider = ''claude''
        then callClaude (messagesApi up) apiKey model systemPrompt messages
        else if provider = ''moonshot''
        then (if (\<exists>os. opts = Some os \<and> webSearch os = Some True)
                 \<and> \<not> (\<exists>m \<in> set messages. \<exists>ps. content m = Parts ps
                                                \<and> (\<exists>mt d. ImagePart mt d \<in> set ps))
              then (case callMoonshotWithSearch (chatApi up) apiKey model systemPrompt messages
                           (optThinking opts) of
                      (r, ex) \<Rightarrow> (r, map fst ex))
              else callOpenAICompatible env (chatApi up) provider apiKey model systemPrompt
                     messages (optThinking opts))
        else if provider = ''grok'' \<or> provider = ''openai''
        then (if (\<exists>os. opts = Some os \<and> webSearch os = Some True)
                 \<and> \<not> (\<exists>m \<in> set messages. \<exists>ps. content m = Parts ps
                                                \<and> (\<exists>mt d. ImagePart mt d \<in> set ps))
              then callResponsesAPIWithSearch env (responsesApi up) provider apiKey model
                     systemPrompt messages
              else callOpenAICompatible env (chatApi up) provider apiKey model systemPrompt
                     messages (optThinking opts))
        else (Inl (Error (''Unknown AI provider: '' @ provider)), []))
   \<and> ((\<exists>os. opts = Some os \<and> webSearch os = Some True)
       \<and> \<not> (\<exists>m \<in> set messages. \<exists>ps. content m = Parts ps \<and> (\<exists>mt d. ImagePart mt d \<in> set ps))
       \<and> (provider = ''moonshot'' \<or> provider = ''grok'' \<or> provider = ''openai'')
      \<longrightarrow> list_all (\<lambda>req. field ''tools'' (body req) \<noteq> None)
            (snd (generateResponse env up provider apiKey model systemPrompt messages opts)))"
proof -
  let ?asked = "\<exists>os. opts = Some os \<and> webSearch os = Some True"
  note A = allowWebSearch_iff [of opts messages]
  have a: "allowWebSearch opts messages \<longleftrightarrow> ?asked" if "\<not> hasImage messages"
    using that A by simp
  have b: "\<not> allowWebSearch opts messages" if "hasImage messages"
    using that A by simp
  have c: "list_all (\<lambda>req. field ''tools'' (body req) = None)
             (snd (generateResponse env up provider apiKey model systemPrompt messages opts))"
    if "hasImage messages"
    unfolding generateResponse_sent_plain [OF b [OF that]]
    by (simp add: callClaude_requests callOpenAICompatible_sent tools_claudeRequest
        tools_chatRequest split: option.split)
  have d: "generateResponse env up provider apiKey model systemPrompt messages opts =
       (if provider = ''claude''
        then callClaude (messagesApi up) apiKey model systemPrompt messages
        else if provider = ''moonshot''
        then (if ?asked \<and> \<not> hasImage messages
              then (case callMoonshotWithSearch (chatApi up) apiKey model systemPrompt messages
                           (optThinking opts) of
                      (r, ex) \<Rightarrow> (r, map fst ex))
              else callOpenAICompatible env (chatApi up) provider apiKey model systemPrompt
                     messages (optThinking opts))
        else if provider = ''grok'' \<or> provider = ''openai''
        then (if ?asked \<and> \<not> hasImage messages
              then callResponsesAPIWithSearch env (responsesApi up) provider apiKey model
                     systemPrompt messages
              else callOpenAICompatible env (chatApi up) provider apiKey model systemPrompt
                     messages (optThinking opts))
        else (Inl (Error (''Unknown AI provider: '' @ provider)), []))"
  proof (cases "allowWebSearch opts messages")
    case True
    with A generateResponse_sent_search [OF True, of env up provider apiKey model systemPrompt]
    show ?thesis by simp
  next
    case False
    with A generateResponse_sent_plain [OF False, of env up provider apiKey model systemPrompt]
    show ?thesis by auto
  qed
  have e: "list_all (\<lambda>req. field ''tools'' (body req) \<noteq> None)
            (snd (generateResponse env up provider apiKey model systemPrompt messages opts))"
    if "?asked" and "\<not> hasImage messages"
      and "provider = ''moonshot'' \<or> provider = ''grok'' \<or> provider = ''openai''"
  proof -
    from that(1,2) A have al: "allowWebSearch opts messages" by simp
    show ?thesis
      unfolding generateResponse_sent_search [OF al]
      using that(3) callMoonshotWithSearch_tools [of "chatApi up" apiKey model systemPrompt messages
          "optThinking opts"]
      by (auto simp: callResponsesAPIWithSearch_sent tools_responsesRequest
          split: prod.splits option.splits)
  qed
  from a b c d e generateResponse_sent_plain [of opts messages env up provider apiKey model systemPrompt]
  show ?thesis
    unfolding hasImage_iff [symmetric] by blast
qed

theorem web_search_routing_witness:
  "\<not> allowWebSearch (Some searchOn) [photoTurn]
   \<and> allowWebSearch (Some searchOn) [textTurn]
   \<and> generateResponse Map.empty exampleUpstream ''moonshot'' ''k'' ''m'' ''s'' [photoTurn] (Some searchOn)
      = callOpenAICompatible Map.empty answersAtOnce ''moonshot'' ''k'' ''m'' ''s'' [photoTurn] None
   \<and> generateResponse Map.empty searchingUpstream ''moonshot'' ''k'' ''m'' ''s'' [textTurn] (Some searchOn)
      = (case callMoonshotWithSearch searchesOnce ''k'' ''m'' ''s'' [textTurn] None of
           (r, ex) \<Rightarrow> (r, map fst ex))
   \<and> generateResponse Map.empty searchingUpstream ''grok'' ''k'' ''m'' ''s'' [textTurn] (Some searchOn)
      = callResponsesAPIWithSearch Map.empty responsesSearched ''grok'' ''k'' ''m'' ''s'' [textTurn]
   \<and> fst (generateResponse Map.empty searchingUpstream ''moonshot'' ''k'' ''m'' ''s'' [textTurn]
            (Some searchOn))
      = Inr \<lparr>ai_text = ''Found it.'', inputTokens = Some 12, outputTokens = Some 5,
              webSearchQueries = Some [''rust news'']\<rparr>
   \<and> map (field ''tools'' \<circ> body)
        (snd (generateResponse Map.empty searchingUpstream ''moonshot'' ''k'' ''m'' ''s'' [textTurn]
                (Some searchOn)))
      = [Some moonshotTools, Some moonshotTools]"
proof -
  have img: "\<exists>m \<in> set [photoTurn]. \<exists>ps. content m = Parts ps \<and> (\<exists>mt d. ImagePart mt d \<in> set ps)"
    by (simp add: photoTurn_def)
  have noimg: "\<not> (\<exists>m \<in> set [textTurn]. \<exists>ps. content m = Parts ps \<and> (\<exists>mt d. ImagePart mt d \<in> set ps))"
    by (simp add: textTurn_def)
  have on: "\<exists>os. Some searchOn = Some os \<and> webSearch os = Some True"
    by (simp add: searchOn_def)
  note I = web_search_routing [of "[photoTurn]" "Some searchOn" Map.empty exampleUpstream
      "''moonshot''" "''k''" "''m''" "''s''"]
  note M = web_search_routing [of "[textTurn]" "Some searchOn" Map.empty searchingUpstream
      "''moonshot''" "''k''" "''m''" "''s''"]
  note G = web_search_routing [of "[textTurn]" "Some searchOn" Map.empty searchingUpstream
      "''grok''" "''k''" "''m''" "''s''"]
  from I img have 1: "\<not> allowWebSearch (Some searchOn) [photoTurn]"
    and 3: "generateResponse Map.empty exampleUpstream ''moonshot'' ''k'' ''m'' ''s'' [photoTurn]
              (Some searchOn)
            = callOpenAICompatible Map.empty answersAtOnce ''moonshot'' ''k'' ''m'' ''s'' [photoTurn] None"
    by (simp_all add: exampleUpstream_def optThinking_def searchOn_def)
  from M noimg on have 2: "allowWebSearch (Some searchOn) [textTurn]"
    by blast
  from M noimg on
  have 4: "generateResponse Map.empty searchingUpstream ''moonshot'' ''k'' ''m'' ''s'' [textTurn]
             (Some searchOn)
           = (case callMoonshotWithSearch searchesOnce ''k'' ''m'' ''s'' [textTurn] None of
                (r, ex) \<Rightarrow> (r, map fst ex))"
    by (simp add: searchingUpstream_def optThinking_def searchOn_def)
  from G noimg on
  have 5: "generateResponse Map.empty searchingUpstream ''grok'' ''k'' ''m'' ''s'' [textTurn]
             (Some searchOn)
           = callResponsesAPIWithSearch Map.empty responsesSearched ''grok'' ''k'' ''m'' ''s'' [textTurn]"
    by (simp add: searchingUpstream_def)
  have run: "fst (callMoonshotWithSearch searchesOnce ''k'' ''m'' ''s'' [textTurn] None)
               = Inr \<lparr>ai_text = ''Found it.'', inputTokens = Some 12, outputTokens = Some 5,
                       webSearchQueries = Some [''rust news'']\<rparr>"
    and sent: "map (field ''tools'' \<circ> body \<circ> fst)
                 (snd (callMoonshotWithSearch searchesOnce ''k'' ''m'' ''s'' [textTurn] None))
               = [Some moonshotTools, Some moonshotTools]"
    by (simp_all add: run_loop searchesOnce_def moonshotRequest_def field_def)
  from 4 run have 6: "fst (generateResponse Map.empty searchingUpstream ''moonshot'' ''k'' ''m'' ''s''
                             [textTurn] (Some searchOn))
      = Inr \<lparr>ai_text = ''Found it.'', inputTokens = Some 12, outputTokens = Some 5,
              webSearchQueries = Some [''rust news'']\<rparr>"
    by (simp split: prod.splits)
  from 4 sent have 7: "map (field ''tools'' \<circ> body)
        (snd (generateResponse Map.empty searchingUpstream ''moonshot'' ''k'' ''m'' ''s'' [textTurn]
                (Some searchOn)))
      = [Some moonshotTools, Some moonshotTools]"
    by (simp split: prod.splits)
  from 1 2 3 4 5 6 7 show ?thesis by blast
qed

section \<open>The caller's messages\<close>

lemma messagesAt_pushMessages:
  "a < length h \<Longrightarrow> messagesAt (pushMessages h a xs) a = messagesAt h a @ xs"
  by (simp add: messagesAt_def pushMessages_def)

lemma messagesAt_pushStrings:
  "a \<noteq> b \<Longrightarrow> messagesAt (pushStrings h b xs) a = messagesAt h a"
  by (simp add: messagesAt_def pushStrings_def)

lemma stringsAt_pushStrings:
  "a < length h \<Longrightarrow> stringsAt (pushStrings h a xs) a = stringsAt h a @ xs"
  by (simp add: stringsAt_def pushStrings_def)

lemma stringsAt_pushMessages:
  "a \<noteq> b \<Longrightarrow> stringsAt (pushMessages h b xs) a = stringsAt h a"
  by (simp add: stringsAt_def pushMessages_def)

lemma length_push [simp]:
  "length (pushMessages h a xs) = length h" "length (pushStrings h a ys) = length h"
  "length (setProperty h a k v) = length h"
  by (simp_all add: pushMessages_def pushStrings_def setProperty_def)

lemma take_push:
  "n \<le> a \<Longrightarrow> take n (pushMessages h a xs) = take n h"
  "n \<le> a \<Longrightarrow> take n (pushStrings h a ys) = take n h"
  "n \<le> a \<Longrightarrow> take n (setProperty h a k v) = take n h"
  by (simp_all add: pushMessages_def pushStrings_def setProperty_def)

lemma toolRound_h_classified:
  "toolRound_h fetch u apiKey model think i ls =
     (let req = moonshotRequest u apiKey model think (messagesAt (store ls) (apiMessagesRef ls));
          res = fetch i req;
          ls1 = logged_h req res ls
      in case classify res of
           SFailed e \<Rightarrow> Return_h (Inl (Rejected e)) ls1
         | SStatus status t \<Rightarrow> Return_h (Inl (apiError ''moonshot'' status t)) ls1
         | SNoJson \<Rightarrow> Return_h (Inl (Rejected ''response.json()'')) ls1
         | SNoChoices d \<Rightarrow> Return_h (Inl NoChoicesError) (counted_h d ls1)
         | SFinal d c \<Rightarrow> Return_h (Inr (loopResult_h c (counted_h d ls1))) (counted_h d ls1)
         | SCalls d c tcs \<Rightarrow> Continue_h (pushed_h c tcs (counted_h d ls1)))"
  unfolding toolRound_h_def classify_def counted_h_def logged_h_def pushed_h_def Let_def
  by (simp split: fetched.split option.split list.split)

lemma view_logged: "view (logged_h req res ls) = logged req res (view ls)"
  by (simp add: view_def logged_h_def logged_def)

lemma view_counted: "view (counted_h d ls) = counted d (view ls)"
  by (simp add: view_def counted_h_def counted_def)

lemma view_pushed:
  assumes "ownRefs n ls"
  shows "view (pushed_h c tcs ls)
           = (view ls)\<lparr>searchQueries := searchQueries (view ls) @ map fn_arguments tcs,
                        apiMessages := apiMessages (view ls) @ [assistantTurn c tcs]
                                       @ map toolTurn tcs\<rparr>"
  using assms
  by (simp add: view_def pushed_h_def ownRefs_def messagesAt_pushMessages messagesAt_pushStrings
      stringsAt_pushStrings stringsAt_pushMessages)

lemma loopResult_view: "loopResult_h c ls = loopResult c (view ls)"
  by (simp add: loopResult_h_def loopResult_def view_def)

lemma ownRefs_steps:
  "ownRefs n (logged_h req res ls) = ownRefs n ls"
  "ownRefs n (counted_h d ls) = ownRefs n ls"
  "ownRefs n (pushed_h c tcs ls) = ownRefs n ls"
  by (simp_all add: ownRefs_def logged_h_def counted_h_def pushed_h_def)

lemma store_steps:
  "store (logged_h req res ls) = store ls"
  "store (counted_h d ls) = store ls"
  "ownRefs n ls \<Longrightarrow> take n (store (pushed_h c tcs ls)) = take n (store ls)"
  by (simp_all add: ownRefs_def logged_h_def counted_h_def pushed_h_def take_push)

lemma toolRound_h_simulates:
  assumes "ownRefs n ls"
  shows "simulates n ls (toolRound_h fetch u apiKey model think i ls)
           (toolRound fetch u apiKey model think i (view ls))"
proof -
  define req where "req = moonshotRequest u apiKey model think (messagesAt (store ls) (apiMessagesRef ls))"
  define res where "res = fetch i req"
  have am: "apiMessages (view ls) = messagesAt (store ls) (apiMessagesRef ls)"
    by (simp add: view_def)
  note H = toolRound_h_classified [of fetch u apiKey model think i ls, unfolded Let_def,
      folded req_def, folded res_def]
  note P = toolRound_classified [of fetch u apiKey model think i "view ls", unfolded Let_def am,
      folded req_def, folded res_def]
  have o: "ownRefs n (counted_h d (logged_h req res ls))" for d
    using assms by (simp add: ownRefs_steps)
  show ?thesis
    unfolding H P simulates_def
    by (cases "classify res")
       (simp_all add: view_logged view_counted view_pushed [OF o] loopResult_view ownRefs_steps
          store_steps assms store_steps(3) [OF o])
qed

lemma toolLoop_h_simulates:
  assumes "toolLoop_h fetch u apiKey model think i ls = (r, ls')" and "ownRefs n ls"
  shows "toolLoop fetch u apiKey model think i (view ls) = (r, view ls')
           \<and> take n (store ls') = take n (store ls)"
  using assms
proof (induction fetch u apiKey model think i ls rule: toolLoop_h.induct)
  case (1 fetch u apiKey model think i ls)
  show ?case
  proof (cases "i < MAX_TOOL_ITERATIONS")
    case False
    with "1.prems" show ?thesis
      by (simp add: toolLoop_h.simps toolLoop.simps)
  next
    case True
    note S = toolRound_h_simulates [OF "1.prems"(2), of fetch u apiKey model think i]
    show ?thesis
    proof (cases "toolRound_h fetch u apiKey model think i ls")
      case (Continue_h ls2)
      with S have p: "toolRound fetch u apiKey model think i (view ls) = Continue (view ls2)"
        and o: "ownRefs n ls2" and t: "take n (store ls2) = take n (store ls)"
        by (simp_all add: simulates_def)
      from True Continue_h "1.prems"(1)
      have L: "toolLoop_h fetch u apiKey model think (Suc i) ls2 = (r, ls')"
        by (simp add: toolLoop_h.simps)
      from "1.IH" [OF True Continue_h L o] p t True show ?thesis
        by (simp add: toolLoop.simps [of fetch u apiKey model think i])
    next
      case (Return_h r2 ls2)
      with S have p: "toolRound fetch u apiKey model think i (view ls) = Return r2 (view ls2)"
        and t: "take n (store ls2) = take n (store ls)"
        by (simp_all add: simulates_def)
      from True Return_h "1.prems"(1) have "r = r2" "ls' = ls2"
        by (simp_all add: toolLoop_h.simps)
      with p t True show ?thesis
        by (simp add: toolLoop.simps [of fetch u apiKey model think i])
    qed
  qed
qed

lemma callMoonshotWithSearch_h_refines:
  "fst (callMoonshotWithSearch_h fetch apiKey model systemPrompt messagesRef think h)
     = callMoonshotWithSearch fetch apiKey model systemPrompt (conversationAt h messagesRef) think
   \<and> take (length h)
         (snd (callMoonshotWithSearch_h fetch apiKey model systemPrompt messagesRef think h)) = h"
proof -
  define u where "u = (js ''https://api.moonshot.ai/v1/chat/completions'')"
  define ls0 where
    "ls0 = \<lparr>store = h @ [Messages (convertedMessages systemPrompt (conversationAt h messagesRef)),
                          Strings []],
            apiMessagesRef = length h, searchQueriesRef = Suc (length h),
            inputTotal = 0, outputTotal = 0, exchanged = []\<rparr>"
  obtain r ls' where L: "toolLoop_h fetch u apiKey model think 0 ls0 = (r, ls')"
    by (cases "toolLoop_h fetch u apiKey model think 0 ls0")
  have o: "ownRefs (length h) ls0"
    by (simp add: ownRefs_def ls0_def)
  have v: "view ls0 = initialState systemPrompt (conversationAt h messagesRef)"
    by (simp add: view_def ls0_def initialState_def messagesAt_def stringsAt_def nth_append)
  from toolLoop_h_simulates [OF L o]
  have P: "toolLoop fetch u apiKey model think 0
             (initialState systemPrompt (conversationAt h messagesRef)) = (r, view ls')"
    and T: "take (length h) (store ls') = h"
    unfolding v by (simp_all add: ls0_def)
  have H: "callMoonshotWithSearch_h fetch apiKey model systemPrompt messagesRef think h
             = ((r, exchanged ls'), store ls')"
    using L
    by (simp add: callMoonshotWithSearch_h_def OPENAI_COMPATIBLE_ENDPOINTS_def alloc_def
        u_def ls0_def)
  show ?thesis
    using P T unfolding H by (simp add: callMoonshotWithSearch_unfold u_def view_def)
qed

lemma callOpenAICompatible_h_refines:
  "fst (callOpenAICompatible_h env fetch provider apiKey model systemPrompt messagesRef think h)
     = callOpenAICompatible env fetch provider apiKey model systemPrompt
         (conversationAt h messagesRef) think
   \<and> take (length h)
         (snd (callOpenAICompatible_h env fetch provider apiKey model systemPrompt messagesRef
                 think h)) = h"
proof (cases "if provider = ''openai'' then Some (getOpenAIChatCompletionsUrl env)
              else OPENAI_COMPATIBLE_ENDPOINTS provider")
  case None
  then show ?thesis
    unfolding callOpenAICompatible_h_def callOpenAICompatible_def by simp
next
  case (Some u)
  show ?thesis
  proof (cases "u = []")
    case True
    with Some show ?thesis
      unfolding callOpenAICompatible_h_def callOpenAICompatible_def by simp
  next
    case False
    define fields where
      "fields = [(''model'', JStr model), (''max_tokens'', JNum 1024),
                 (''messages'', JArr (convertedMessages systemPrompt (conversationAt h messagesRef)))]"
    define h2 where
      "h2 = (case think of
               Some t \<Rightarrow> if provider = ''moonshot''
                         then setProperty (h @ [Object fields]) (length h) ''thinking''
                                (JObj [(''type'', JStr (thinkingName t))])
                         else h @ [Object fields]
             | None \<Rightarrow> h @ [Object fields])"
    define req where
      "req = chatRequest u provider apiKey model systemPrompt (conversationAt h messagesRef) think"
    have b: "JObj (objectAt h2 (length h))
               = chatPayload provider model systemPrompt (conversationAt h messagesRef) think"
      by (simp add: h2_def fields_def objectAt_def setProperty_def chatPayload_def nth_append
          split: option.split)
    have t: "take (length h) h2 = h"
      by (simp add: h2_def take_push split: option.split)
    have rb: "\<lparr>url = u, http_method = ''POST'', headers = bearerHeaders apiKey,
               body = JObj (objectAt h2 (length h))\<rparr> = req"
      by (simp add: req_def chatRequest_def b)
    have H: "callOpenAICompatible_h env fetch provider apiKey model systemPrompt messagesRef think h
               = (case fetch 0 req of
                    FetchFailed e \<Rightarrow> ((Inl (Rejected e), [req]), h2)
                  | Response status t parsed \<Rightarrow>
                      if \<not> ok status then ((Inl (apiError provider status t), [req]), h2)
                      else (case parsed of
                              None \<Rightarrow> ((Inl (Rejected ''response.json()''), [req]), h2)
                            | Some d \<Rightarrow>
                                ((Inr \<lparr>ai_text =
                                         (case choices d of
                                            [] \<Rightarrow> []
                                          | c # _ \<Rightarrow>
                                              (case msg_content (message c) of
                                                 None \<Rightarrow> [] | Some s \<Rightarrow> s)),
                                       inputTokens =
                                         (case usage d of None \<Rightarrow> None
                                          | Some us \<Rightarrow> prompt_tokens us),
                                       outputTokens =
                                         (case usage d of None \<Rightarrow> None
                                          | Some us \<Rightarrow> completion_tokens us),
                                       webSearchQueries = None\<rparr>, [req]), h2)))"
      unfolding callOpenAICompatible_h_def Some alloc_def Let_def prod.case option.case
        fields_def [symmetric] h2_def [symmetric] rb
      using False by simp
    have P: "callOpenAICompatible env fetch provider apiKey model systemPrompt
               (conversationAt h messagesRef) think
               = (case fetch 0 req of
                    FetchFailed e \<Rightarrow> (Inl (Rejected e), [req])
                  | Response status t parsed \<Rightarrow>
                      if \<not> ok status then (Inl (apiError provider status t), [req])
                      else (case parsed of
                              None \<Rightarrow> (Inl (Rejected ''response.json()''), [req])
                            | Some d \<Rightarrow>
                                (Inr \<lparr>ai_text =
                                         (case choices d of
                                            [] \<Rightarrow> []
                                          | c # _ \<Rightarrow>
                                              (case msg_content (message c) of
                                                 None \<Rightarrow> [] | Some s \<Rightarrow> s)),
                                       inputTokens =
                                         (case usage d of None \<Rightarrow> None
                                          | Some us \<Rightarrow> prompt_tokens us),
                                       outputTokens =
                                         (case usage d of None \<Rightarrow> None
                                          | Some us \<Rightarrow> completion_tokens us),
                                       webSearchQueries = None\<rparr>, [req])))"
      unfolding callOpenAICompatible_def Some req_def chatRequest_def
      by (simp add: False Let_def)
    show ?thesis
      unfolding H P using t
      by (cases "fetch 0 req") (simp_all split: option.split)
  qed
qed

lemma generateResponse_h_refines:
  "fst (generateResponse_h env up provider apiKey model systemPrompt messagesRef opts h)
     = generateResponse env up provider apiKey model systemPrompt (conversationAt h messagesRef) opts
   \<and> take (length h)
         (snd (generateResponse_h env up provider apiKey model systemPrompt messagesRef opts h)) = h"
proof -
  note M = callMoonshotWithSearch_h_refines [of "chatApi up" apiKey model systemPrompt messagesRef
      "optThinking opts" h]
  note C = callOpenAICompatible_h_refines [of env "chatApi up" provider apiKey model systemPrompt
      messagesRef "optThinking opts" h]
  show ?thesis
    unfolding generateResponse_h_def generateResponse_def
    using M C by (auto split: prod.splits)
qed

lemma frame_cells:
  assumes "take (length h) h' = h" and "a < length h"
  shows "conversationAt h' a = conversationAt h a"
proof -
  have "length (take (length h) h') = length h"
    using assms(1) by simp
  then have "length h \<le> length h'"
    by simp
  moreover have "h' ! a = h ! a"
    using assms by (metis nth_take)
  ultimately show ?thesis
    using assms(2) by (simp add: conversationAt_def)
qed

text \<open>
  Claim C9. A call of the facade, on every provider path, leaves every cell that
  existed before the call as it was, so the caller's array of messages and its
  elements are unchanged: the payload of the plain adapter and the message list
  and query list of the tool-call loop are cells allocated during the call, and
  all updates go to them. The outcome is the one the facade computes from the
  conversation read at the start.
\<close>

theorem messages_unchanged:
  "take (length h)
     (snd (generateResponse_h env up provider apiKey model systemPrompt messagesRef opts h)) = h
   \<and> (messagesRef < length h \<longrightarrow>
        conversationAt
          (snd (generateResponse_h env up provider apiKey model systemPrompt messagesRef opts h))
          messagesRef
        = conversationAt h messagesRef)
   \<and> fst (generateResponse_h env up provider apiKey model systemPrompt messagesRef opts h)
       = generateResponse env up provider apiKey model systemPrompt
           (conversationAt h messagesRef) opts"
  using generateResponse_h_refines [of env up provider apiKey model systemPrompt messagesRef opts h]
    frame_cells [of h "snd (generateResponse_h env up provider apiKey model systemPrompt
                             messagesRef opts h)" messagesRef]
  by simp

theorem messages_unchanged_witness:
  "conversationAt
     (snd (generateResponse_h Map.empty searchingUpstream ''moonshot'' ''k'' ''m'' ''s'' 1
             (Some searchOn) callerHeap)) 1 = [textTurn]
   \<and> length (snd (generateResponse_h Map.empty searchingUpstream ''moonshot'' ''k'' ''m'' ''s'' 1
                    (Some searchOn) callerHeap)) = 4
   \<and> length (snd (fst (generateResponse_h Map.empty searchingUpstream ''moonshot'' ''k'' ''m'' ''s'' 1
                    (Some searchOn) callerHeap))) = 2"
proof -
  have a: "1 < length callerHeap" and c: "conversationAt callerHeap 1 = [textTurn]"
    by (simp_all add: callerHeap_def conversationAt_def)
  have l: "length (snd (generateResponse_h Map.empty searchingUpstream ''moonshot'' ''k'' ''m'' ''s'' 1
                    (Some searchOn) callerHeap)) = 4
           \<and> length (snd (fst (generateResponse_h Map.empty searchingUpstream ''moonshot'' ''k'' ''m''
                    ''s'' 1 (Some searchOn) callerHeap))) = 2"
    by code_simp
  from messages_unchanged [of callerHeap Map.empty searchingUpstream "''moonshot''" "''k''" "''m''"
      "''s''" 1 "Some searchOn"] a c l
  show ?thesis by simp
qed

end
